theory Spec2Isabelle
  imports Complex_Main
begin

section \<open>CO2 / Peltier / fan cooling simulator: shallow embedding\<close>

text \<open>
  The repository holds several near-identical copies of one discrete-time loop. Two of
  them are embedded here, each from its own source file:
  \<^item> \<^verbatim>\<open>simulation/laptopcoolingsim1yearsim4o1-pro.py\<close>, a script whose state lives in
    module globals (lower-case names below);
  \<^item> \<^verbatim>\<open>co2cooling/laptop_sim.py\<close>, the packaged \<^verbatim>\<open>run_simulation\<close> (upper-case
    constants, definitions with the suffix \<^verbatim>\<open>_ls\<close>);
  and, for comparison, the Peltier manager and the swap/refill block of
  \<^verbatim>\<open>simulation/laptopcoolingsim1yearsim2.py\<close> (suffix \<^verbatim>\<open>_sim2\<close>).

  Python floats are idealised as \<^typ>\<open>real\<close>: every statement below is about exact
  arithmetic, not about IEEE rounding. Python ints that are only ever counters or
  timestamps are \<^typ>\<open>nat\<close> or \<^typ>\<open>int\<close>.
\<close>

subsection \<open>Module constants of laptopcoolingsim1yearsim4o1-pro.py\<close>

definition cpu_power_watts :: real where "cpu_power_watts = 18.5"
definition passive_dissipation_watts :: real where "passive_dissipation_watts = 1.5"
definition thermal_mass_j_per_c :: real where "thermal_mass_j_per_c = 300"
definition initial_temp_c :: real where "initial_temp_c = 25"
definition critical_temp_c :: real where "critical_temp_c = 90"
definition emergency_temp_c :: real where "emergency_temp_c = 75"

definition cooling_capacity_joules :: real where "cooling_capacity_joules = 2900"
definition purge_efficiency :: real where "purge_efficiency = 0.85"
definition cooling_effective_joules :: real where
  "cooling_effective_joules = cooling_capacity_joules * purge_efficiency"
definition cooldown_per_purge_c :: real where
  "cooldown_per_purge_c = cooling_effective_joules / thermal_mass_j_per_c"
definition conduction_watts :: real where "conduction_watts = 2.2"
definition conduction_duration :: int where "conduction_duration = 180"

definition peltier_max_cooling_watts :: real where "peltier_max_cooling_watts = 30"
definition peltier_power_draw :: real where "peltier_power_draw = 30"
definition peltier_max_runtime :: int where "peltier_max_runtime = 120"
definition peltier_efficiency_base :: real where "peltier_efficiency_base = 0.6"
definition battery_capacity_wh :: real where "battery_capacity_wh = 8500000000"

definition fan_power_draw :: real where "fan_power_draw = 0.25"
definition fan_efficiency_multiplier_base :: real where "fan_efficiency_multiplier_base = 1.3"
definition fan_ramp_time :: real where "fan_ramp_time = 1.0"

definition total_time_s0 :: int where "total_time_s0 = 31536000"
definition time_step_s :: int where "time_step_s = 5"

lemmas pro_consts =
  cpu_power_watts_def passive_dissipation_watts_def thermal_mass_j_per_c_def
  initial_temp_c_def critical_temp_c_def emergency_temp_c_def
  cooling_capacity_joules_def purge_efficiency_def cooling_effective_joules_def
  cooldown_per_purge_c_def conduction_watts_def conduction_duration_def
  peltier_max_cooling_watts_def peltier_power_draw_def peltier_max_runtime_def
  peltier_efficiency_base_def battery_capacity_wh_def fan_power_draw_def
  fan_efficiency_multiplier_base_def fan_ramp_time_def total_time_s0_def time_step_s_def

subsection \<open>Module constants of co2cooling/laptop_sim.py\<close>

definition CPU_POWER_WATTS :: real where "CPU_POWER_WATTS = 18.5"
definition PASSIVE_DISSIPATION_WATTS :: real where "PASSIVE_DISSIPATION_WATTS = 1.5"
definition THERMAL_MASS_J_PER_C :: real where "THERMAL_MASS_J_PER_C = 300"
definition INITIAL_TEMP_C :: real where "INITIAL_TEMP_C = 25"
definition CRITICAL_TEMP_C :: real where "CRITICAL_TEMP_C = 90"
definition EMERGENCY_TEMP_C :: real where "EMERGENCY_TEMP_C = 78"

definition COOLING_CAPACITY_JOULES :: real where "COOLING_CAPACITY_JOULES = 2900"
definition PURGE_EFFICIENCY :: real where "PURGE_EFFICIENCY = 0.85"
definition COOLING_EFFECTIVE_JOULES :: real where
  "COOLING_EFFECTIVE_JOULES = COOLING_CAPACITY_JOULES * PURGE_EFFICIENCY"
definition COOLDOWN_PER_PURGE_C :: real where
  "COOLDOWN_PER_PURGE_C = COOLING_EFFECTIVE_JOULES / THERMAL_MASS_J_PER_C"
definition CONDUCTION_WATTS :: real where "CONDUCTION_WATTS = 2.2"
definition CONDUCTION_DURATION :: int where "CONDUCTION_DURATION = 180"

definition PELTIER_MAX_COOLING_WATTS :: real where "PELTIER_MAX_COOLING_WATTS = 15"
definition PELTIER_POWER_DRAW :: real where "PELTIER_POWER_DRAW = 30"
definition PELTIER_MAX_RUNTIME :: int where "PELTIER_MAX_RUNTIME = 120"
definition BATTERY_CAPACITY_WH :: real where "BATTERY_CAPACITY_WH = 60"
definition PELTIER_EFFICIENCY_BASE :: real where "PELTIER_EFFICIENCY_BASE = 0.6"

definition FAN_POWER_DRAW :: real where "FAN_POWER_DRAW = 0.25"
definition FAN_EFFICIENCY_MULTIPLIER_BASE :: real where "FAN_EFFICIENCY_MULTIPLIER_BASE = 1.3"

lemmas ls_consts =
  CPU_POWER_WATTS_def PASSIVE_DISSIPATION_WATTS_def THERMAL_MASS_J_PER_C_def
  INITIAL_TEMP_C_def CRITICAL_TEMP_C_def EMERGENCY_TEMP_C_def
  COOLING_CAPACITY_JOULES_def PURGE_EFFICIENCY_def COOLING_EFFECTIVE_JOULES_def
  COOLDOWN_PER_PURGE_C_def CONDUCTION_WATTS_def CONDUCTION_DURATION_def
  PELTIER_MAX_COOLING_WATTS_def PELTIER_POWER_DRAW_def PELTIER_MAX_RUNTIME_def
  BATTERY_CAPACITY_WH_def PELTIER_EFFICIENCY_BASE_def FAN_POWER_DRAW_def
  FAN_EFFICIENCY_MULTIPLIER_BASE_def

subsection \<open>Helper functions\<close>

text \<open>\<^verbatim>\<open>calculate_peltier_efficiency\<close>, 4o1-pro lines 109-125.\<close>

definition calculate_peltier_efficiency :: "real \<Rightarrow> real \<Rightarrow> real" where
  "calculate_peltier_efficiency cpu_temp hot_side_temp =
     (let temp_diff = hot_side_temp - cpu_temp in
      if temp_diff \<le> 0 then peltier_efficiency_base
      else
        let efficiency = peltier_efficiency_base * (1 - (temp_diff / 70)\<^sup>2);
            efficiency = (if hot_side_temp > 85 then efficiency * 0.5 else efficiency)
        in max 0.1 (min peltier_efficiency_base efficiency))"

text \<open>\<^verbatim>\<open>calculate_peltier_efficiency\<close>, laptop_sim.py lines 50-58.\<close>

definition calculate_peltier_efficiency_ls :: "real \<Rightarrow> real \<Rightarrow> real" where
  "calculate_peltier_efficiency_ls cpu_temp hot_side_temp =
     (let temp_diff = hot_side_temp - cpu_temp in
      if temp_diff \<le> 0 then PELTIER_EFFICIENCY_BASE
      else
        let efficiency = PELTIER_EFFICIENCY_BASE * (1 - (temp_diff / 70)\<^sup>2);
            efficiency = (if hot_side_temp > 85 then efficiency * 0.5 else efficiency)
        in max 0.1 (min PELTIER_EFFICIENCY_BASE efficiency))"

text \<open>
  \<^verbatim>\<open>calculate_fan_multiplier\<close>, 4o1-pro lines 127-144. The third argument is what the
  main loop passes as \<^verbatim>\<open>post_purge_timer\<close>: the seconds that remain of the conduction
  window.
\<close>

definition calculate_fan_multiplier :: "real \<Rightarrow> bool \<Rightarrow> real \<Rightarrow> real" where
  "calculate_fan_multiplier duty_cycle is_post_purge purge_timer =
     (if duty_cycle \<le> 0 then 1.0
      else
        let base_mult = 1.0 + (fan_efficiency_multiplier_base - 1.0) * (duty_cycle / 100);
            speed_factor = 1.0 + (duty_cycle / 100) * 0.7;
            purge_boost =
              (if is_post_purge then
                 let decay_factor =
                       max 0 (min 1 ((real_of_int conduction_duration - purge_timer)
                                      / real_of_int conduction_duration))
                 in 1.0 + 0.5 * decay_factor
               else 1.0)
        in base_mult * speed_factor * purge_boost)"

text \<open>\<^verbatim>\<open>calculate_fan_multiplier\<close>, laptop_sim.py lines 61-71.\<close>

definition calculate_fan_multiplier_ls :: "real \<Rightarrow> bool \<Rightarrow> real \<Rightarrow> real" where
  "calculate_fan_multiplier_ls duty_cycle is_post_purge purge_timer =
     (if duty_cycle \<le> 0 then 1.0
      else
        let base_mult = 1.0 + (FAN_EFFICIENCY_MULTIPLIER_BASE - 1.0) * (duty_cycle / 100);
            speed_factor = 1.0 + (duty_cycle / 100) * 0.7;
            purge_boost =
              (if is_post_purge then
                 let decay_factor =
                       max 0 (min 1 (purge_timer / real_of_int CONDUCTION_DURATION))
                 in 1.0 + 0.5 * decay_factor
               else 1.0)
        in base_mult * speed_factor * purge_boost)"

subsection \<open>State of the simulation\<close>

text \<open>
  The 4o1-pro script keeps its state in module globals, \<^verbatim>\<open>run_simulation\<close> of
  laptop_sim.py in local variables of the same names. One record holds them; laptop_sim
  never touches \<open>peak_temp_c\<close>, \<open>last_swap_log_time\<close>, \<open>n_steps\<close> and \<open>total_time_s\<close>.
  The dict \<^verbatim>\<open>cooling_contribution\<close> has a fixed set of six keys and is a record too. The
  event log keeps the kind of each line and its timestamp, not the formatted text.
\<close>

datatype fan_mode = PASSIVE | SLOW_HISS | PURGE | EMERGENCY | NORMAL

datatype event =
    EMERG_PURGE int
  | WEEKLY_SWAP_LOG int
  | WEEKLY_REFILL_LOG int
  | CANISTER_SWAP int
  | STATUS int
  | BATTERY_DEPLETED int
  | SUMMARY int real

record cooling_contribution =
  cc_passive :: real
  cc_co2_hiss :: real
  cc_co2_purge :: real
  cc_canister_conduction :: real
  cc_peltier :: real
  cc_fan_boost :: real

record sim =
  canisters :: "real list"
  current_canister :: nat
  purge_count :: nat
  canister_swaps :: nat
  last_purge_time :: int
  temperature_c :: real
  peak_temp_c :: real
  events :: "event list"
  temperature_log :: "real list"
  peltier_active :: bool
  peltier_runtime_s :: int
  battery_remaining_wh :: real
  hot_side_temp_c :: real
  fan_active :: bool
  fan_duty_cycle :: real
  fan_mode :: fan_mode
  post_purge_timer :: int
  contribution :: cooling_contribution
  last_swap_log_time :: int
  n_steps :: nat
  total_time_s :: int

definition no_contribution :: cooling_contribution where
  "no_contribution =
     \<lparr>cc_passive = 0, cc_co2_hiss = 0, cc_co2_purge = 0, cc_canister_conduction = 0,
      cc_peltier = 0, cc_fan_boost = 0\<rparr>"

text \<open>Section 2 of the 4o1-pro script (lines 53-86) and the loop-local initialisations.\<close>

definition initial_state :: sim where
  "initial_state =
     \<lparr>canisters = [cooling_capacity_joules, cooling_capacity_joules],
      current_canister = 0, purge_count = 0, canister_swaps = 0, last_purge_time = - 9999,
      temperature_c = initial_temp_c, peak_temp_c = initial_temp_c, events = [],
      temperature_log = [], peltier_active = True, peltier_runtime_s = 0,
      battery_remaining_wh = battery_capacity_wh, hot_side_temp_c = initial_temp_c,
      fan_active = True, fan_duty_cycle = 0, fan_mode = PASSIVE, post_purge_timer = 0,
      contribution = no_contribution, last_swap_log_time = - 9999999,
      n_steps = nat (total_time_s0 div time_step_s), total_time_s = total_time_s0\<rparr>"

subsection \<open>The loop body of laptopcoolingsim1yearsim4o1-pro.py\<close>

text \<open>\<^verbatim>\<open>get_cpu_workload\<close>, lines 90-107; it reads the global \<^verbatim>\<open>total_time_s\<close>.\<close>

definition get_cpu_workload :: "int \<Rightarrow> real \<Rightarrow> real" where
  "get_cpu_workload tt time_s =
     (let base_load = cpu_power_watts * 0.85;
          variation = sin (time_s / (300 * 60) * pi) * 0.15 * cpu_power_watts;
          intense_start1 = real_of_int tt * 0.1;
          intense_end1 = intense_start1 + 7200;
          intense_start2 = real_of_int tt * 0.6;
          intense_end2 = intense_start2 + 14400
      in if (intense_start1 < time_s \<and> time_s < intense_end1)
            \<or> (intense_start2 < time_s \<and> time_s < intense_end2)
         then cpu_power_watts * 1.1
         else base_load + variation)"

text \<open>Lines 231-236: is the step inside the post-purge window, and how much of it is left.\<close>

definition post_purge_window :: "int \<Rightarrow> int \<Rightarrow> bool \<times> int" where
  "post_purge_window seconds last_purge =
     (let time_since_last_purge = seconds - last_purge;
          is_post_purge = (0 \<le> time_since_last_purge
                           \<and> time_since_last_purge \<le> conduction_duration)
      in (is_post_purge,
          if is_post_purge then conduction_duration - time_since_last_purge else 0))"

text \<open>Lines 243-254: burst duration and cycle time by temperature band.\<close>

definition microburst_schedule :: "real \<Rightarrow> real \<times> real" where
  "microburst_schedule temp =
     (if temp < 50 then (0.3, 8.0)
      else if 50 \<le> temp \<and> temp < 70 then (0.5, 5.0)
      else if 70 \<le> temp \<and> temp < 75 then (0.7, 4.0)
      else (1.0, 3.0))"

text \<open>
  Lines 256-262: \<^verbatim>\<open>burst_now\<close> and \<^verbatim>\<open>hiss_energy\<close>. \<^verbatim>\<open>int(cycle_time)\<close> truncates a
  positive float, which is its floor.
\<close>

definition hiss_energy_now :: "sim \<Rightarrow> int \<Rightarrow> real" where
  "hiss_energy_now st seconds =
     (let (burst_duration, cycle_time) = microburst_schedule (temperature_c st);
          burst_now = (canisters st ! current_canister st > 0
                       \<and> \<lfloor>cycle_time\<rfloor> > 0
                       \<and> seconds mod \<lfloor>cycle_time\<rfloor> < time_step_s);
          hiss_joules_per_burst = burst_duration * 3.0
      in if burst_now then hiss_joules_per_burst else 0)"

text \<open>\<^verbatim>\<open>manage_peltier\<close>, lines 146-176.\<close>

definition manage_peltier :: "sim \<Rightarrow> real \<Rightarrow> real \<Rightarrow> bool \<Rightarrow> int \<Rightarrow> sim" where
  "manage_peltier st cpu_temp battery_level co2_ok time_since_purge =
     (let should_activate =
            (cpu_temp > 70
             \<and> battery_level > 0.05 * battery_capacity_wh
             \<and> peltier_runtime_s st < peltier_max_runtime
             \<and> hot_side_temp_c st < 90);
          should_deactivate =
            (cpu_temp < 65
             \<or> battery_level < 0.03 * battery_capacity_wh
             \<or> peltier_runtime_s st \<ge> peltier_max_runtime);
          post_purge_boost = (time_since_purge \<ge> 0 \<and> time_since_purge < 60)
      in if peltier_active st then
           (if should_deactivate
            then st\<lparr>peltier_active := False, peltier_runtime_s := 0\<rparr>
            else st)
         else
           (if should_activate \<or> post_purge_boost then
              (if battery_level > 0.05 * battery_capacity_wh
               then st\<lparr>peltier_active := True\<rparr>
               else st\<lparr>peltier_active := False, peltier_runtime_s := 0\<rparr>)
            else st))"

text \<open>
  \<^verbatim>\<open>manage_peltier\<close> of laptopcoolingsim1yearsim2.py, lines 131-166: the same function
  with one more disjunct in \<^verbatim>\<open>should_deactivate\<close>.
\<close>

definition manage_peltier_sim2 :: "sim \<Rightarrow> real \<Rightarrow> real \<Rightarrow> bool \<Rightarrow> int \<Rightarrow> sim" where
  "manage_peltier_sim2 st cpu_temp battery_level co2_available time_since_purge =
     (let should_activate =
            (cpu_temp > 70
             \<and> battery_level > 0.05 * battery_capacity_wh
             \<and> peltier_runtime_s st < peltier_max_runtime
             \<and> hot_side_temp_c st < 90);
          should_deactivate =
            (cpu_temp < 65
             \<or> battery_level < 0.03 * battery_capacity_wh
             \<or> hot_side_temp_c st > 95
             \<or> peltier_runtime_s st \<ge> peltier_max_runtime);
          post_purge_boost = (time_since_purge \<ge> 0 \<and> time_since_purge < 60)
      in if peltier_active st then
           (if should_deactivate
            then st\<lparr>peltier_active := False, peltier_runtime_s := 0\<rparr>
            else st)
         else
           (if should_activate \<or> post_purge_boost then
              (if battery_level > 0.05 * battery_capacity_wh
               then st\<lparr>peltier_active := True\<rparr>
               else st\<lparr>peltier_active := False, peltier_runtime_s := 0\<rparr>)
            else st))"

text \<open>
  Lines 265-286: the Peltier is managed, then its cooling power, the hot side, the
  battery and the runtime are updated. The result is \<^verbatim>\<open>base_peltier_cooling\<close> and the
  new state.
\<close>

definition peltier_stage :: "sim \<Rightarrow> int \<Rightarrow> real \<times> sim" where
  "peltier_stage st0 time_since_last_purge =
     (let st = manage_peltier st0 (temperature_c st0) (battery_remaining_wh st0)
                 (canisters st0 ! current_canister st0 > 50) time_since_last_purge
      in if peltier_active st then
           let peltier_eff = calculate_peltier_efficiency (temperature_c st) (hot_side_temp_c st);
               base_peltier_cooling = peltier_max_cooling_watts * peltier_eff;
               peltier_heat_generated = peltier_power_draw + base_peltier_cooling;
               hot_side_delta_t =
                 (peltier_heat_generated * 0.01 - passive_dissipation_watts * 0.1)
                  * real_of_int time_step_s;
               hot = max (temperature_c st) (hot_side_temp_c st + hot_side_delta_t);
               peltier_power_consumed_ws = peltier_power_draw * real_of_int time_step_s
           in (base_peltier_cooling,
               st\<lparr>hot_side_temp_c := hot,
                  battery_remaining_wh := battery_remaining_wh st - peltier_power_consumed_ws / 3600,
                  peltier_runtime_s := peltier_runtime_s st + time_step_s\<rparr>)
         else
           let cooling_rate = 0.1;
               hot = hot_side_temp_c st
                     - (hot_side_temp_c st - temperature_c st) * cooling_rate
                       * real_of_int time_step_s
           in (0, st\<lparr>hot_side_temp_c := max (temperature_c st) hot\<rparr>))"

text \<open>\<^verbatim>\<open>manage_fan\<close>, lines 178-216.\<close>

definition manage_fan :: "sim \<Rightarrow> real \<Rightarrow> bool \<Rightarrow> int \<Rightarrow> int \<Rightarrow> sim" where
  "manage_fan st cpu_temp is_post_purge seconds_since_purge current_time =
     (let (mode, target_duty) =
            (if cpu_temp < 50 \<and> \<not> is_post_purge then (PASSIVE, 0)
             else if cpu_temp < 50 then
               (SLOW_HISS, if current_time mod 15 = 0 then 30 else 0)
             else if is_post_purge then (PURGE, 70)
             else if cpu_temp > 70 then (EMERGENCY, 100)
             else (NORMAL, 50));
          ramp_up_step = (100 / fan_ramp_time) * real_of_int time_step_s;
          ramp_down_step = ramp_up_step * 0.5;
          duty = (if target_duty > fan_duty_cycle st
                  then min target_duty (fan_duty_cycle st + ramp_up_step)
                  else if target_duty < fan_duty_cycle st
                  then max target_duty (fan_duty_cycle st - ramp_down_step)
                  else fan_duty_cycle st);
          duty = max 0 (min 100 duty)
      in st\<lparr>fan_mode := mode, fan_duty_cycle := duty, fan_active := (duty > 0)\<rparr>)"

text \<open>Lines 288-295: fan management, the multiplier, and the fan's battery use.\<close>

definition fan_stage :: "sim \<Rightarrow> bool \<Rightarrow> int \<Rightarrow> int \<Rightarrow> int \<Rightarrow> real \<times> sim" where
  "fan_stage st0 is_post_purge time_since_last_purge seconds timer =
     (let st = manage_fan st0 (temperature_c st0) is_post_purge time_since_last_purge seconds;
          fan_multiplier =
            calculate_fan_multiplier (fan_duty_cycle st) is_post_purge (real_of_int timer)
      in (fan_multiplier,
          if fan_active st then
            let fan_power_consumed_ws =
                  fan_power_draw * (fan_duty_cycle st / 100.0) * real_of_int time_step_s
            in st\<lparr>battery_remaining_wh := battery_remaining_wh st - fan_power_consumed_ws / 3600\<rparr>
          else st))"

text \<open>Lines 318-327: the cooling breakdown, in joules.\<close>

definition track_contributions :: "cooling_contribution \<Rightarrow> real \<Rightarrow> real \<Rightarrow> real \<Rightarrow> real
    \<Rightarrow> real \<Rightarrow> cooling_contribution" where
  "track_contributions cc base_passive_cooling base_conduction_cooling base_hiss_cooling
       base_peltier_cooling fan_boost =
     (let dt_joules = real_of_int time_step_s
      in cc\<lparr>cc_passive := cc_passive cc + base_passive_cooling * dt_joules,
            cc_canister_conduction :=
              cc_canister_conduction cc + base_conduction_cooling * dt_joules,
            cc_co2_hiss := cc_co2_hiss cc + base_hiss_cooling * dt_joules,
            cc_peltier := cc_peltier cc + base_peltier_cooling * dt_joules,
            cc_fan_boost := cc_fan_boost cc + fan_boost * dt_joules\<rparr>)"

text \<open>
  Lines 329-349, the emergency purge. The temperature and the canisters are still those
  the step started with when the block runs.
\<close>

definition emergency_purge :: "sim \<Rightarrow> real \<Rightarrow> int \<Rightarrow> sim" where
  "emergency_purge st fan_multiplier seconds =
     (let needs_purge = (temperature_c st > critical_temp_c);
          maybe_purge = (temperature_c st > emergency_temp_c
                         \<and> canisters st ! current_canister st < cooling_capacity_joules * 0.15)
      in if needs_purge \<or> maybe_purge then
           (if canisters st ! current_canister st \<ge> cooling_effective_joules then
              let temp_drop = cooldown_per_purge_c * fan_multiplier
              in st\<lparr>temperature_c := temperature_c st - temp_drop,
                    canisters := (canisters st)
                      [current_canister st :=
                         canisters st ! current_canister st - cooling_effective_joules],
                    purge_count := purge_count st + 1,
                    last_purge_time := seconds,
                    contribution := (contribution st)
                      \<lparr>cc_co2_purge :=
                         cc_co2_purge (contribution st) + cooling_effective_joules\<rparr>,
                    events := events st @ [EMERG_PURGE seconds]\<rparr>
            else st)
         else st)"

text \<open>
  Lines 351-374, canister swap or refill. The refill branch rebuilds the list with
  \<^verbatim>\<open>min(cooling_capacity_joules, c)\<close> for each canister.
\<close>

definition canister_swap_or_refill :: "sim \<Rightarrow> int \<Rightarrow> sim" where
  "canister_swap_or_refill st seconds =
     (if canisters st ! current_canister st < 50 then
        let other_canister = 1 - current_canister st
        in if canisters st ! other_canister > 50 then
             let st1 = st\<lparr>current_canister := other_canister,
                           canister_swaps := canister_swaps st + 1\<rparr>
             in if seconds - last_swap_log_time st1 > 604800
                then st1\<lparr>events := events st1 @ [WEEKLY_SWAP_LOG seconds],
                         last_swap_log_time := seconds\<rparr>
                else st1
           else
             let st1 = st\<lparr>canisters := map (\<lambda>c. min cooling_capacity_joules c) (canisters st),
                           current_canister := 0,
                           canister_swaps := canister_swaps st + 1\<rparr>
             in if seconds - last_swap_log_time st1 > 604800
                then st1\<lparr>events := events st1 @ [WEEKLY_REFILL_LOG seconds],
                         last_swap_log_time := seconds\<rparr>
                else st1
      else st)"

text \<open>
  The same block in laptopcoolingsim1yearsim2.py, lines 345-362: the refill branch
  assigns the capacity to both canisters, and every swap or refill is logged.
\<close>

definition canister_swap_or_refill_sim2 :: "sim \<Rightarrow> int \<Rightarrow> sim" where
  "canister_swap_or_refill_sim2 st seconds =
     (if canisters st ! current_canister st < 50 then
        let other_canister = 1 - current_canister st
        in if canisters st ! other_canister > 50 then
             st\<lparr>current_canister := other_canister,
                canister_swaps := canister_swaps st + 1,
                events := events st @ [CANISTER_SWAP seconds]\<rparr>
           else
             st\<lparr>canisters := [cooling_capacity_joules, cooling_capacity_joules],
                current_canister := 0,
                canister_swaps := canister_swaps st + 1,
                events := events st @ [WEEKLY_REFILL_LOG seconds]\<rparr>
      else st)"

text \<open>Lines 378-380: the microburst is paid by the canister that is active now.\<close>

definition apply_microburst_usage :: "sim \<Rightarrow> real \<Rightarrow> sim" where
  "apply_microburst_usage st hiss_energy =
     (if hiss_energy > 0 then
        st\<lparr>canisters := (canisters st)
             [current_canister st := max 0 (canisters st ! current_canister st - hiss_energy)]\<rparr>
      else st)"

text \<open>Lines 382-391: explicit Euler step, the floor at 80% of ambient, peak and log.\<close>

definition net_temperature_update :: "sim \<Rightarrow> real \<Rightarrow> real \<Rightarrow> sim" where
  "net_temperature_update st current_cpu_power total_cooling =
     (let net_power = current_cpu_power - total_cooling;
          delta_temp = (net_power * real_of_int time_step_s) / thermal_mass_j_per_c;
          temp = max (initial_temp_c * 0.8) (temperature_c st + delta_temp)
      in st\<lparr>temperature_c := temp,
            peak_temp_c := (if temp > peak_temp_c st then temp else peak_temp_c st),
            temperature_log := temperature_log st @ [temp]\<rparr>)"

text \<open>Lines 393-400: the daily status line.\<close>

definition periodic_status :: "sim \<Rightarrow> int \<Rightarrow> sim" where
  "periodic_status st seconds =
     (if seconds > 0 \<and> seconds mod 86400 < time_step_s
      then st\<lparr>events := events st @ [STATUS seconds]\<rparr>
      else st)"

text \<open>
  Lines 224-327 of the loop body, for the loop index \<open>t\<close>: everything up to the cooling
  breakdown. Nothing here writes the temperature, the canisters or the purge counters.
  The result is \<^verbatim>\<open>current_cpu_power\<close>, \<^verbatim>\<open>hiss_energy\<close>, \<^verbatim>\<open>fan_multiplier\<close>,
  \<^verbatim>\<open>total_cooling\<close> and the state.
\<close>

definition thermal_phase :: "sim \<Rightarrow> nat \<Rightarrow> real \<times> real \<times> real \<times> real \<times> sim" where
  "thermal_phase st0 t =
     (let seconds = int t * time_step_s;
          current_cpu_power = get_cpu_workload (total_time_s st0) (real_of_int seconds);
          time_since_last_purge = seconds - last_purge_time st0;
          (is_post_purge, timer) = post_purge_window seconds (last_purge_time st0);
          st1 = st0\<lparr>post_purge_timer := timer\<rparr>;
          base_passive_cooling = passive_dissipation_watts;
          base_conduction_cooling = (if is_post_purge then conduction_watts else 0);
          hiss_energy = hiss_energy_now st1 seconds;
          base_hiss_cooling = hiss_energy / real_of_int time_step_s;
          (base_peltier_cooling, st2) = peltier_stage st1 time_since_last_purge;
          (fan_multiplier, st3) = fan_stage st2 is_post_purge time_since_last_purge seconds timer;
          base_total_cooling = base_passive_cooling + base_conduction_cooling
                               + base_hiss_cooling + base_peltier_cooling;
          total_cooling = base_passive_cooling * fan_multiplier
                          + base_conduction_cooling * fan_multiplier
                          + base_hiss_cooling * fan_multiplier
                          + base_peltier_cooling * fan_multiplier;
          fan_boost = total_cooling - base_total_cooling;
          st4 = st3\<lparr>contribution :=
                     track_contributions (contribution st3) base_passive_cooling
                       base_conduction_cooling base_hiss_cooling base_peltier_cooling fan_boost\<rparr>
      in (current_cpu_power, hiss_energy, fan_multiplier, total_cooling, st4))"

text \<open>
  One pass through the loop body, lines 224-400: the thermal phase, the purge, the swap,
  the microburst's cost, the integration and the status line, in the order of the source.
  The battery check that ends the loop is in \<open>run_steps\<close>.
\<close>

definition loop_body :: "sim \<Rightarrow> nat \<Rightarrow> sim" where
  "loop_body st0 t =
     (let seconds = int t * time_step_s;
          (current_cpu_power, hiss_energy, fan_multiplier, total_cooling, st4) =
            thermal_phase st0 t;
          st5 = emergency_purge st4 fan_multiplier seconds;
          st6 = canister_swap_or_refill st5 seconds;
          st7 = apply_microburst_usage st6 hiss_energy;
          st8 = net_temperature_update st7 current_cpu_power total_cooling
      in periodic_status st8 seconds)"

text \<open>
  Lines 223 and 402-407: \<^verbatim>\<open>for t in range(n_steps)\<close> with the \<^verbatim>\<open>break\<close> on an exhausted
  battery. The range is fixed when the loop starts; the list is the indices still to run.
\<close>

definition battery_halt :: "sim \<Rightarrow> nat \<Rightarrow> sim" where
  "battery_halt st t =
     (let seconds = int t * time_step_s
      in st\<lparr>events := events st @ [BATTERY_DEPLETED seconds],
            n_steps := t + 1,
            total_time_s := seconds\<rparr>)"

fun run_steps :: "nat list \<Rightarrow> sim \<Rightarrow> sim" where
  "run_steps [] st = st"
| "run_steps (t # ts) st =
     (let st' = loop_body st t
      in if battery_remaining_wh st' \<le> 0 then battery_halt st' t else run_steps ts st')"

text \<open>
  Lines 409-427: the log is cut to \<^verbatim>\<open>n_steps\<close> entries and the summary is appended; it
  reports the simulated duration and the battery clamped at zero.
\<close>

definition summarise :: "sim \<Rightarrow> sim" where
  "summarise st =
     (let st1 = (if length (temperature_log st) > n_steps st
                 then st\<lparr>temperature_log := take (n_steps st) (temperature_log st)\<rparr>
                 else st);
          batt_remaining = max 0 (battery_remaining_wh st1)
      in st1\<lparr>events := events st1 @ [SUMMARY (total_time_s st1) batt_remaining]\<rparr>)"

definition simulate :: "sim \<Rightarrow> sim" where
  "simulate st = summarise (run_steps [0 ..< n_steps st] st)"

subsection \<open>run_simulation of co2cooling/laptop_sim.py\<close>

text \<open>
  \<^verbatim>\<open>run_simulation(total_time_s, time_step_s)\<close> takes the duration and the step as
  arguments, so the step \<open>dt\<close> is a parameter of every definition here. The function can
  raise in three places: \<^verbatim>\<open>total_time_s // time_step_s\<close> on a zero step,
  \<^verbatim>\<open>max(temperature_log)\<close> in the summary when no step ran, and
  \<^verbatim>\<open>plt.plot(times, temperature_log)\<close> when the time axis and the log differ in length.
  All three are error values of the embedding.
\<close>

datatype py_error = ZeroDivisionError | ValueError

text \<open>\<^verbatim>\<open>get_cpu_workload\<close>, laptop_sim.py lines 41-47.\<close>

definition get_cpu_workload_ls :: "real \<Rightarrow> real" where
  "get_cpu_workload_ls time_s =
     (let base_load = CPU_POWER_WATTS * 0.85;
          variation = sin (time_s / 300 * pi) * 0.15 * CPU_POWER_WATTS
      in if (900 < time_s \<and> time_s < 1100) \<or> (2400 < time_s \<and> time_s < 2700)
         then CPU_POWER_WATTS * 1.1
         else base_load + variation)"

text \<open>Lines 76-100: the local variables before the loop.\<close>

definition initial_state_ls :: "int \<Rightarrow> int \<Rightarrow> sim" where
  "initial_state_ls total_time dt =
     \<lparr>canisters = [COOLING_CAPACITY_JOULES, COOLING_CAPACITY_JOULES],
      current_canister = 0, purge_count = 0, canister_swaps = 0, last_purge_time = - 9999,
      temperature_c = INITIAL_TEMP_C, peak_temp_c = INITIAL_TEMP_C, events = [],
      temperature_log = [], peltier_active = False, peltier_runtime_s = 0,
      battery_remaining_wh = BATTERY_CAPACITY_WH, hot_side_temp_c = INITIAL_TEMP_C,
      fan_active = False, fan_duty_cycle = 0, fan_mode = PASSIVE, post_purge_timer = 0,
      contribution = no_contribution, last_swap_log_time = 0,
      n_steps = nat (total_time div dt), total_time_s = total_time\<rparr>"

text \<open>Lines 113-126: the burst schedule and the energy of this step's burst.\<close>

definition microburst_schedule_ls :: "real \<Rightarrow> real \<times> real" where
  "microburst_schedule_ls temp =
     (if temp < 60 then (0.3, 8.0)
      else if 60 \<le> temp \<and> temp < 70 then (0.5, 5.0)
      else if 70 \<le> temp \<and> temp < 75 then (0.7, 4.0)
      else (1.0, 3.0))"

definition hiss_energy_now_ls :: "sim \<Rightarrow> int \<Rightarrow> real" where
  "hiss_energy_now_ls st seconds =
     (let (burst_duration, cycle_time) = microburst_schedule_ls (temperature_c st);
          burst_now = (seconds mod \<lfloor>cycle_time\<rfloor> = 0)
      in if burst_now \<and> canisters st ! current_canister st > 0
         then burst_duration * 3.0 else 0)"

text \<open>Lines 130-147: Peltier activation and deactivation.\<close>

definition peltier_decision_ls :: "sim \<Rightarrow> int \<Rightarrow> sim" where
  "peltier_decision_ls st time_since_last_purge =
     (let should_activate =
            (temperature_c st > 70
             \<and> battery_remaining_wh st > 5
             \<and> peltier_runtime_s st < PELTIER_MAX_RUNTIME
             \<and> hot_side_temp_c st < 90);
          should_deactivate =
            (temperature_c st < 65
             \<or> battery_remaining_wh st < 3
             \<or> hot_side_temp_c st > 95
             \<or> peltier_runtime_s st \<ge> PELTIER_MAX_RUNTIME);
          post_purge_boost = (0 < time_since_last_purge \<and> time_since_last_purge < 60)
      in if should_activate \<or> post_purge_boost then st\<lparr>peltier_active := True\<rparr>
         else if should_deactivate then st\<lparr>peltier_active := False, peltier_runtime_s := 0\<rparr>
         else st)"

text \<open>Lines 149-162: Peltier cooling, hot side, battery and runtime.\<close>

definition peltier_stage_ls :: "int \<Rightarrow> sim \<Rightarrow> int \<Rightarrow> real \<times> sim" where
  "peltier_stage_ls dt st0 time_since_last_purge =
     (let st = peltier_decision_ls st0 time_since_last_purge
      in if peltier_active st then
           let peltier_efficiency =
                 calculate_peltier_efficiency_ls (temperature_c st) (hot_side_temp_c st);
               peltier_cooling = PELTIER_MAX_COOLING_WATTS * peltier_efficiency;
               hot = hot_side_temp_c st
                     + (PELTIER_POWER_DRAW * (1 - peltier_efficiency) * real_of_int dt)
                       / THERMAL_MASS_J_PER_C;
               hot = hot - PASSIVE_DISSIPATION_WATTS * 0.5 * real_of_int dt / THERMAL_MASS_J_PER_C
           in (peltier_cooling,
               st\<lparr>hot_side_temp_c := hot,
                  battery_remaining_wh :=
                    battery_remaining_wh st - (PELTIER_POWER_DRAW * real_of_int dt) / 3600,
                  peltier_runtime_s := peltier_runtime_s st + dt,
                  contribution := (contribution st)
                    \<lparr>cc_peltier := cc_peltier (contribution st)
                                   + peltier_cooling * real_of_int dt\<rparr>\<rparr>)
         else
           (0, st\<lparr>hot_side_temp_c := max (temperature_c st) (hot_side_temp_c st - 0.5),
                  peltier_runtime_s := max 0 (peltier_runtime_s st - dt)\<rparr>))"

text \<open>Lines 164-187: fan mode, ramp, multiplier and the fan's battery use.\<close>

definition fan_stage_ls :: "int \<Rightarrow> sim \<Rightarrow> bool \<Rightarrow> int \<Rightarrow> int \<Rightarrow> real \<times> sim" where
  "fan_stage_ls dt st is_post_purge seconds timer =
     (let (mode, target_duty) =
            (if temperature_c st < 50 \<and> \<not> is_post_purge then (PASSIVE, 0)
             else if temperature_c st < 65 then
               (SLOW_HISS, if seconds mod 15 = 0 then 30 else 0)
             else if is_post_purge then (PURGE, 80)
             else if temperature_c st > 75 then (EMERGENCY, 100)
             else (NORMAL, 50));
          duty = (if target_duty > fan_duty_cycle st
                  then min target_duty (fan_duty_cycle st + 10)
                  else if target_duty < fan_duty_cycle st
                  then max target_duty (fan_duty_cycle st - 5)
                  else fan_duty_cycle st);
          st1 = st\<lparr>fan_mode := mode, fan_duty_cycle := duty, fan_active := (duty > 0)\<rparr>;
          fan_multiplier = calculate_fan_multiplier_ls duty is_post_purge (real_of_int timer)
      in (fan_multiplier,
          if fan_active st1 then
            st1\<lparr>battery_remaining_wh :=
                  battery_remaining_wh st1
                  - (FAN_POWER_DRAW * (duty / 100) * real_of_int dt) / 3600\<rparr>
          else st1))"

text \<open>
  Lines 202-214, the emergency purge; the threshold 85 is a literal of the source, not
  \<^verbatim>\<open>CRITICAL_TEMP_C\<close>.
\<close>

definition emergency_purge_ls :: "sim \<Rightarrow> real \<Rightarrow> int \<Rightarrow> sim" where
  "emergency_purge_ls st fan_multiplier seconds =
     (if (canisters st ! current_canister st < COOLING_CAPACITY_JOULES * 0.10
          \<and> temperature_c st > EMERGENCY_TEMP_C)
         \<or> temperature_c st > 85 then
        (if canisters st ! current_canister st \<ge> COOLING_EFFECTIVE_JOULES then
           st\<lparr>temperature_c := temperature_c st - COOLDOWN_PER_PURGE_C * fan_multiplier,
              canisters := (canisters st)
                [current_canister st :=
                   canisters st ! current_canister st - COOLING_EFFECTIVE_JOULES],
              purge_count := purge_count st + 1,
              last_purge_time := seconds,
              contribution := (contribution st)
                \<lparr>cc_co2_purge := cc_co2_purge (contribution st) + COOLING_EFFECTIVE_JOULES\<rparr>,
              events := events st @ [EMERG_PURGE seconds]\<rparr>
         else st)
      else st)"

text \<open>Lines 216-221: the one-way swap from canister 0 to canister 1.\<close>

definition canister_swap_ls :: "sim \<Rightarrow> int \<Rightarrow> sim" where
  "canister_swap_ls st seconds =
     (if canisters st ! current_canister st < 50 \<and> current_canister st = 0
      then st\<lparr>current_canister := 1,
              canister_swaps := canister_swaps st + 1,
              events := events st @ [CANISTER_SWAP seconds]\<rparr>
      else st)"

text \<open>Line 222: the burst is paid by the canister that is active now.\<close>

definition apply_hiss_usage_ls :: "sim \<Rightarrow> real \<Rightarrow> sim" where
  "apply_hiss_usage_ls st hiss_energy =
     st\<lparr>canisters := (canisters st)
          [current_canister st := max 0 (canisters st ! current_canister st - hiss_energy)]\<rparr>"

text \<open>Lines 224-231: explicit Euler step, the log, the status line every 300 s.\<close>

definition net_temperature_update_ls :: "int \<Rightarrow> sim \<Rightarrow> real \<Rightarrow> real \<Rightarrow> int \<Rightarrow> sim" where
  "net_temperature_update_ls dt st current_cpu_power total_cooling seconds =
     (let net_power = current_cpu_power - total_cooling;
          delta_temp = (net_power * real_of_int dt) / THERMAL_MASS_J_PER_C;
          temp = temperature_c st + delta_temp;
          st1 = st\<lparr>temperature_c := temp, temperature_log := temperature_log st @ [temp]\<rparr>
      in if seconds mod 300 = 0 \<and> seconds > 0
         then st1\<lparr>events := events st1 @ [STATUS seconds]\<rparr>
         else st1)"

text \<open>
  Lines 103-200 of the loop body: everything up to \<^verbatim>\<open>total_cooling\<close>. The result is
  \<^verbatim>\<open>current_cpu_power\<close>, \<^verbatim>\<open>hiss_energy\<close>, \<^verbatim>\<open>fan_multiplier\<close>, \<^verbatim>\<open>total_cooling\<close> and the
  state.
\<close>

definition thermal_phase_ls :: "int \<Rightarrow> sim \<Rightarrow> nat \<Rightarrow> real \<times> real \<times> real \<times> real \<times> sim" where
  "thermal_phase_ls dt st0 t =
     (let seconds = int t * dt;
          current_cpu_power = get_cpu_workload_ls (real_of_int seconds);
          time_since_last_purge = seconds - last_purge_time st0;
          is_post_purge = (0 \<le> time_since_last_purge
                           \<and> time_since_last_purge \<le> CONDUCTION_DURATION);
          timer = (if is_post_purge then CONDUCTION_DURATION - time_since_last_purge else 0);
          passive_cooling = PASSIVE_DISSIPATION_WATTS;
          conduction_cooling = (if is_post_purge then CONDUCTION_WATTS else 0);
          hiss_energy = hiss_energy_now_ls st0 seconds;
          hiss_cooling = hiss_energy / real_of_int dt;
          st1 = st0\<lparr>post_purge_timer := timer,
                    contribution := (contribution st0)
                      \<lparr>cc_passive := cc_passive (contribution st0)
                                      + passive_cooling * real_of_int dt,
                       cc_canister_conduction := cc_canister_conduction (contribution st0)
                                      + conduction_cooling * real_of_int dt,
                       cc_co2_hiss := cc_co2_hiss (contribution st0) + hiss_energy\<rparr>\<rparr>;
          (peltier_cooling, st2) = peltier_stage_ls dt st1 time_since_last_purge;
          (fan_multiplier, st3) = fan_stage_ls dt st2 is_post_purge seconds timer;
          enhanced_passive = passive_cooling * fan_multiplier;
          enhanced_conduction = conduction_cooling * fan_multiplier;
          enhanced_hiss = hiss_cooling * fan_multiplier;
          enhanced_peltier = peltier_cooling * fan_multiplier;
          fan_boost = enhanced_passive + enhanced_conduction + enhanced_hiss + enhanced_peltier
                      - (passive_cooling + conduction_cooling + hiss_cooling + peltier_cooling);
          st4 = st3\<lparr>contribution := (contribution st3)
                      \<lparr>cc_fan_boost := cc_fan_boost (contribution st3)
                                        + fan_boost * real_of_int dt\<rparr>\<rparr>;
          total_cooling = enhanced_passive + enhanced_conduction + enhanced_hiss
                          + enhanced_peltier
      in (current_cpu_power, hiss_energy, fan_multiplier, total_cooling, st4))"

text \<open>One pass through the loop body, lines 103-231.\<close>

definition loop_body_ls :: "int \<Rightarrow> sim \<Rightarrow> nat \<Rightarrow> sim" where
  "loop_body_ls dt st0 t =
     (let seconds = int t * dt;
          (current_cpu_power, hiss_energy, fan_multiplier, total_cooling, st4) =
            thermal_phase_ls dt st0 t;
          st5 = emergency_purge_ls st4 fan_multiplier seconds;
          st6 = canister_swap_ls st5 seconds;
          st7 = apply_hiss_usage_ls st6 hiss_energy
      in net_temperature_update_ls dt st7 current_cpu_power total_cooling seconds)"

text \<open>
  Lines 102 and 233-247: \<^verbatim>\<open>for t in range(n_steps)\<close>, with no exit from the loop, and the
  summary, which reports the battery as it is.
\<close>

definition run_steps_ls :: "int \<Rightarrow> nat list \<Rightarrow> sim \<Rightarrow> sim" where
  "run_steps_ls dt ts st = fold (\<lambda>t s. loop_body_ls dt s t) ts st"

text \<open>
  Lines 249-251, the plot. \<^verbatim>\<open>np.arange(0, total_time_s, time_step_s)\<close> has
  max(0, ceil(total_time_s / time_step_s)) elements, and \<^verbatim>\<open>plt.plot\<close> raises ValueError
  when its two series differ in length. The other plotting calls take no data of the run.
\<close>

definition arange_length :: "int \<Rightarrow> int \<Rightarrow> nat" where
  "arange_length stop step = nat \<lceil>real_of_int stop / real_of_int step\<rceil>"

text \<open>
  \<^verbatim>\<open>run_simulation\<close>, lines 74-260: the loop runs first, over every index; then the
  summary is built, then the plot is drawn, and only then the events and the log are
  returned.
\<close>

definition run_simulation_ls :: "int \<Rightarrow> int \<Rightarrow> py_error + (event list \<times> real list)" where
  "run_simulation_ls total_time dt =
     (if dt = 0 then Inl ZeroDivisionError
      else
        let st0 = initial_state_ls total_time dt;
            st = run_steps_ls dt [0 ..< n_steps st0] st0
        in if temperature_log st = [] then Inl ValueError
           else if arange_length total_time dt \<noteq> length (temperature_log st)
           then Inl ValueError
           else Inr (events st @ [SUMMARY total_time (battery_remaining_wh st)],
                     temperature_log st))"

subsection \<open>Observations used in the statements\<close>

text \<open>The components of what \<open>thermal_phase\<close> returns.\<close>

definition phase_cpu_power :: "real \<times> real \<times> real \<times> real \<times> sim \<Rightarrow> real" where
  "phase_cpu_power r = fst r"

definition phase_hiss_energy :: "real \<times> real \<times> real \<times> real \<times> sim \<Rightarrow> real" where
  "phase_hiss_energy r = fst (snd r)"

definition phase_fan_multiplier :: "real \<times> real \<times> real \<times> real \<times> sim \<Rightarrow> real" where
  "phase_fan_multiplier r = fst (snd (snd r))"

definition phase_total_cooling :: "real \<times> real \<times> real \<times> real \<times> sim \<Rightarrow> real" where
  "phase_total_cooling r = fst (snd (snd (snd r)))"

definition phase_state :: "real \<times> real \<times> real \<times> real \<times> sim \<Rightarrow> sim" where
  "phase_state r = snd (snd (snd (snd r)))"

text \<open>
  The state of step \<open>t\<close> right after the purge block and right after the swap block, in
  both loops.
\<close>

definition after_purge :: "sim \<Rightarrow> nat \<Rightarrow> sim" where
  "after_purge st t =
     emergency_purge (phase_state (thermal_phase st t))
       (phase_fan_multiplier (thermal_phase st t)) (int t * time_step_s)"

definition after_swap :: "sim \<Rightarrow> nat \<Rightarrow> sim" where
  "after_swap st t = canister_swap_or_refill (after_purge st t) (int t * time_step_s)"

definition after_purge_ls :: "int \<Rightarrow> sim \<Rightarrow> nat \<Rightarrow> sim" where
  "after_purge_ls dt st t =
     emergency_purge_ls (phase_state (thermal_phase_ls dt st t))
       (phase_fan_multiplier (thermal_phase_ls dt st t)) (int t * dt)"

definition after_swap_ls :: "int \<Rightarrow> sim \<Rightarrow> nat \<Rightarrow> sim" where
  "after_swap_ls dt st t = canister_swap_ls (after_purge_ls dt st t) (int t * dt)"

text \<open>
  The CO2 ledger: the energy left in the canisters plus what the cooling breakdown has
  booked as spent on microbursts and purges.
\<close>

definition co2_ledger :: "sim \<Rightarrow> real" where
  "co2_ledger st =
     sum_list (canisters st) + cc_co2_hiss (contribution st) + cc_co2_purge (contribution st)"

text \<open>The loop of the 4o1-pro script with its \<^verbatim>\<open>break\<close> taken out: every index runs.\<close>

definition all_steps :: "nat list \<Rightarrow> sim \<Rightarrow> sim" where
  "all_steps ts st = fold (\<lambda>t s. loop_body s t) ts st"

section \<open>Properties\<close>

subsection \<open>Peltier efficiency\<close>

lemma peltier_clamp_mono:
  fixes a b :: real
  assumes "a \<le> b"
  shows "max 0.1 (min 0.6 a) \<le> max 0.1 (min 0.6 b)"
  using assms by (simp add: max_def min_def)

lemma peltier_clamp_upper: "max 0.1 (min 0.6 (a::real)) \<le> 0.6"
  by (simp add: max_def min_def)

lemma peltier_clamp_lower: "(a::real) \<le> 0 \<Longrightarrow> max 0.1 (min 0.6 a) = 0.1"
  by (simp add: max_def min_def)

lemma quad_falloff_mono:
  fixes d1 d2 :: real
  assumes "0 \<le> d1" "d1 \<le> d2"
  shows "0.6 * (1 - (d2 / 70)\<^sup>2) \<le> 0.6 * (1 - (d1 / 70)\<^sup>2)"
proof -
  have "d1 / 70 \<le> d2 / 70" and "0 \<le> d1 / 70"
    using assms by simp_all
  then have "(d1 / 70)\<^sup>2 \<le> (d2 / 70)\<^sup>2"
    by (rule_tac power_mono)
  then show ?thesis by simp
qed

lemma peltier_efficiency_unfold:
  "calculate_peltier_efficiency c h =
     (if h \<le> c then 0.6
      else max 0.1 (min 0.6 ((if h > 85 then 0.5 else 1) * (0.6 * (1 - ((h - c) / 70)\<^sup>2)))))"
  by (simp add: calculate_peltier_efficiency_def peltier_efficiency_base_def Let_def)

lemma peltier_efficiency_ls_same:
  "calculate_peltier_efficiency_ls c h = calculate_peltier_efficiency c h"
  by (simp add: calculate_peltier_efficiency_def calculate_peltier_efficiency_ls_def
      peltier_efficiency_base_def PELTIER_EFFICIENCY_BASE_def)

lemma peltier_efficiency_mono_aux:
  assumes "c \<le> h1" "h1 \<le> h2"
  shows "calculate_peltier_efficiency c h2 \<le> calculate_peltier_efficiency c h1"
proof (cases "h1 \<le> c")
  case True
  then have "calculate_peltier_efficiency c h1 = 0.6"
    by (simp add: peltier_efficiency_unfold)
  moreover have "calculate_peltier_efficiency c h2 \<le> 0.6"
    using peltier_clamp_upper by (simp add: peltier_efficiency_unfold)
  ultimately show ?thesis by simp
next
  case False
  then have pos: "0 \<le> h1 - c" "h1 - c \<le> h2 - c" and nle: "\<not> h2 \<le> c"
    using assms by simp_all
  let ?e1 = "0.6 * (1 - ((h1 - c) / 70)\<^sup>2)"
  let ?e2 = "0.6 * (1 - ((h2 - c) / 70)\<^sup>2)"
  have e21: "?e2 \<le> ?e1"
    using quad_falloff_mono [OF pos] .
  consider (none) "h2 \<le> 85" | (both) "85 < h1" | (second) "h1 \<le> 85" "85 < h2"
    using assms by linarith
  then show ?thesis
  proof cases
    case none
    then have "h1 \<le> 85" using assms by simp
    with none False nle show ?thesis
      using peltier_clamp_mono [OF e21] by (simp add: peltier_efficiency_unfold)
  next
    case both
    then have "85 < h2" using assms by simp
    moreover have "0.5 * ?e2 \<le> 0.5 * ?e1" using e21 by simp
    ultimately show ?thesis
      using both False nle peltier_clamp_mono [of "0.5 * ?e2" "0.5 * ?e1"]
      by (simp add: peltier_efficiency_unfold)
  next
    case second
    show ?thesis
    proof (cases "0 \<le> ?e2")
      case True
      then have "0.5 * ?e2 \<le> ?e1" using e21 by simp
      then show ?thesis
        using second False nle peltier_clamp_mono [of "0.5 * ?e2" ?e1]
        by (simp add: peltier_efficiency_unfold)
    next
      case neg: False
      then have "0.5 * ?e2 \<le> 0" by simp
      then have "max 0.1 (min 0.6 (0.5 * ?e2)) = 0.1"
        by (rule peltier_clamp_lower)
      moreover have "(0.1::real) \<le> max 0.1 (min 0.6 ?e1)" by simp
      ultimately show ?thesis
        using second False nle by (simp add: peltier_efficiency_unfold)
    qed
  qed
qed

text \<open>
  Claim C5. For a fixed CPU temperature the Peltier efficiency never increases as the
  hot side gets hotter, from the CPU temperature upwards, and it is the base efficiency
  whenever the hot side is at or below the CPU temperature. Both copies of the function
  (4o1-pro and laptop_sim) satisfy it.
\<close>

theorem peltier_efficiency_monotone:
  "(cpu_temp \<le> h1 \<and> h1 \<le> h2 \<longrightarrow>
      calculate_peltier_efficiency cpu_temp h2 \<le> calculate_peltier_efficiency cpu_temp h1
    \<and> calculate_peltier_efficiency_ls cpu_temp h2 \<le> calculate_peltier_efficiency_ls cpu_temp h1)
   \<and> (hot \<le> cpu_temp \<longrightarrow>
      calculate_peltier_efficiency cpu_temp hot = peltier_efficiency_base
    \<and> calculate_peltier_efficiency_ls cpu_temp hot = PELTIER_EFFICIENCY_BASE)"
proof (intro conjI impI)
  assume h: "cpu_temp \<le> h1 \<and> h1 \<le> h2"
  then show "calculate_peltier_efficiency cpu_temp h2 \<le> calculate_peltier_efficiency cpu_temp h1"
    using peltier_efficiency_mono_aux by blast
  from h show "calculate_peltier_efficiency_ls cpu_temp h2
      \<le> calculate_peltier_efficiency_ls cpu_temp h1"
    using peltier_efficiency_mono_aux by (simp add: peltier_efficiency_ls_same)
next
  assume "hot \<le> cpu_temp"
  then show "calculate_peltier_efficiency cpu_temp hot = peltier_efficiency_base"
    by (simp add: calculate_peltier_efficiency_def)
next
  assume "hot \<le> cpu_temp"
  then show "calculate_peltier_efficiency_ls cpu_temp hot = PELTIER_EFFICIENCY_BASE"
    by (simp add: calculate_peltier_efficiency_ls_def)
qed

theorem peltier_efficiency_monotone_witness:
  "(50::real) \<le> 60 \<and> (60::real) \<le> 90 \<and> (40::real) \<le> 50
   \<and> calculate_peltier_efficiency 50 90 \<le> calculate_peltier_efficiency 50 60
   \<and> calculate_peltier_efficiency_ls 50 90 \<le> calculate_peltier_efficiency_ls 50 60
   \<and> calculate_peltier_efficiency 50 40 = peltier_efficiency_base
   \<and> calculate_peltier_efficiency_ls 50 40 = PELTIER_EFFICIENCY_BASE
   \<and> calculate_peltier_efficiency 50 60 = 576 / 980
   \<and> calculate_peltier_efficiency 50 90 = 99 / 490"
  using peltier_efficiency_monotone [of 50 60 90 40]
  by (simp add: peltier_efficiency_unfold power2_eq_square)

subsection \<open>Fan multiplier\<close>

lemma prod3_ge_1:
  fixes a b c :: real
  assumes "1 \<le> a" "1 \<le> b" "1 \<le> c"
  shows "1 \<le> a * b * c"
proof -
  have "1 * 1 \<le> a * b" using assms by (intro mult_mono) simp_all
  then have "1 * 1 \<le> (a * b) * c" using assms by (intro mult_mono) simp_all
  then show ?thesis by simp
qed

lemma fan_multiplier_ge_1: "1 \<le> calculate_fan_multiplier d pp tm"
proof (cases "d \<le> 0")
  case True then show ?thesis by (simp add: calculate_fan_multiplier_def)
next
  case False
  show ?thesis
    unfolding calculate_fan_multiplier_def Let_def if_not_P [OF False]
    by (rule prod3_ge_1) (use False in \<open>simp_all add: fan_efficiency_multiplier_base_def\<close>)
qed

lemma fan_multiplier_ls_ge_1: "1 \<le> calculate_fan_multiplier_ls d pp tm"
proof (cases "d \<le> 0")
  case True then show ?thesis by (simp add: calculate_fan_multiplier_ls_def)
next
  case False
  show ?thesis
    unfolding calculate_fan_multiplier_ls_def Let_def if_not_P [OF False]
    by (rule prod3_ge_1) (use False in \<open>simp_all add: FAN_EFFICIENCY_MULTIPLIER_BASE_def\<close>)
qed

text \<open>
  Claim C6. With a duty cycle of 0 the fan multiplier is exactly 1, whatever the post-purge
  flag and the timer; and for a duty cycle in [0, 100] and a timer in
  [0, conduction_duration] it is at least 1. Both copies of the function satisfy it.
\<close>

theorem fan_multiplier_identity_and_floor:
  "calculate_fan_multiplier 0 is_post_purge timer = 1
   \<and> calculate_fan_multiplier_ls 0 is_post_purge timer = 1
   \<and> (0 \<le> duty \<and> duty \<le> 100 \<and> 0 \<le> timer \<and> timer \<le> real_of_int conduction_duration \<longrightarrow>
        1 \<le> calculate_fan_multiplier duty is_post_purge timer
        \<and> 1 \<le> calculate_fan_multiplier_ls duty is_post_purge timer)"
  using fan_multiplier_ge_1 fan_multiplier_ls_ge_1
  by (simp add: calculate_fan_multiplier_def calculate_fan_multiplier_ls_def)

theorem fan_multiplier_identity_and_floor_witness:
  "calculate_fan_multiplier 0 True 90 = 1
   \<and> calculate_fan_multiplier_ls 0 True 90 = 1
   \<and> (0::real) \<le> 50 \<and> (50::real) \<le> 100 \<and> (0::real) \<le> 90 \<and> 90 \<le> real_of_int conduction_duration
   \<and> 1 \<le> calculate_fan_multiplier 50 True 90
   \<and> 1 \<le> calculate_fan_multiplier_ls 50 True 90
   \<and> calculate_fan_multiplier 50 True 90 = 1.15 * 1.35 * 1.25"
  using fan_multiplier_identity_and_floor [of True 90 50]
  by (simp add: calculate_fan_multiplier_def pro_consts)

subsection \<open>Post-purge boost\<close>

lemma fan_multiplier_no_boost:
  "0 < d \<Longrightarrow> calculate_fan_multiplier d False tm = (1 + 0.3 * (d / 100)) * (1 + (d / 100) * 0.7)"
  by (simp add: calculate_fan_multiplier_def fan_efficiency_multiplier_base_def)

lemma fan_multiplier_in_window:
  assumes "0 < d" "0 \<le> since" "since \<le> 180"
  shows "calculate_fan_multiplier d True (real_of_int (snd (post_purge_window (lp + since) lp)))
         = calculate_fan_multiplier d False 0 * (1 + 0.5 * (real_of_int since / 180))"
  using assms
  by (simp add: calculate_fan_multiplier_def post_purge_window_def conduction_duration_def
      fan_efficiency_multiplier_base_def Let_def min_def max_def)

lemma fan_multiplier_ls_in_window:
  assumes "0 < d" "0 \<le> since" "since \<le> 180"
  shows "calculate_fan_multiplier_ls d True (real_of_int (CONDUCTION_DURATION - since))
         = calculate_fan_multiplier_ls d False 0 * (1 + 0.5 * (1 - real_of_int since / 180))"
  using assms
  by (simp add: calculate_fan_multiplier_ls_def CONDUCTION_DURATION_def
      FAN_EFFICIENCY_MULTIPLIER_BASE_def Let_def min_def max_def field_simps)

text \<open>
  Claim C8 (the code departs from it). In the 4o1-pro script the loop passes the seconds
  that remain of the window, and the function subtracts them from the window's length
  again: five seconds after a purge at t = 1000 the boost factor is 1 + 0.5 * 5/180, and
  at the end of the window it is 1.5. The boost grows through the window instead of
  decaying.
\<close>

theorem purge_boost_grows_4o1_pro:
  "post_purge_window 1005 1000 = (True, 175)
   \<and> post_purge_window 1180 1000 = (True, 0)
   \<and> calculate_fan_multiplier 50 True 175
       = calculate_fan_multiplier 50 False 0 * (1 + 0.5 * (5 / 180))
   \<and> calculate_fan_multiplier 50 True 0 = calculate_fan_multiplier 50 False 0 * 1.5
   \<and> calculate_fan_multiplier 50 True 175 < calculate_fan_multiplier 50 True 0"
  by (simp add: post_purge_window_def calculate_fan_multiplier_def conduction_duration_def
      fan_efficiency_multiplier_base_def)

subsection \<open>Peltier deactivation\<close>

lemma manage_peltier_sim2_deactivates:
  assumes "peltier_active st"
  shows "(\<not> peltier_active (manage_peltier_sim2 st temp batt ok since))
         = (temp < 65 \<or> batt < 0.03 * battery_capacity_wh \<or> hot_side_temp_c st > 95
            \<or> peltier_runtime_s st \<ge> peltier_max_runtime)"
    and "\<not> peltier_active (manage_peltier_sim2 st temp batt ok since)
         \<Longrightarrow> peltier_runtime_s (manage_peltier_sim2 st temp batt ok since) = 0"
  using assms by (auto simp add: manage_peltier_sim2_def Let_def split: if_splits)

lemma manage_peltier_deactivates:
  assumes "peltier_active st"
  shows "(\<not> peltier_active (manage_peltier st temp batt ok since))
         = (temp < 65 \<or> batt < 0.03 * battery_capacity_wh
            \<or> peltier_runtime_s st \<ge> peltier_max_runtime)"
    and "\<not> peltier_active (manage_peltier st temp batt ok since)
         \<Longrightarrow> peltier_runtime_s (manage_peltier st temp batt ok since) = 0"
  using assms by (auto simp add: manage_peltier_def Let_def split: if_splits)

lemma peltier_decision_ls_post_purge_override:
  "peltier_active
     (peltier_decision_ls
        (initial_state_ls 3600 5\<lparr>peltier_active := True, peltier_runtime_s := 120,
                                  temperature_c := 80\<rparr>) 30)"
  by (simp add: peltier_decision_ls_def initial_state_ls_def ls_consts)

text \<open>
  Claim C7 (the code departs from it). \<^verbatim>\<open>manage_peltier\<close> of the 4o1-pro script has no
  hot-side ceiling among its deactivation conditions: with the Peltier active, the CPU at
  80 degrees, a full battery, 10 s of runtime and the hot side at 96 degrees, the state is
  returned unchanged and the Peltier stays on. The same call of the sim2 copy switches it
  off and resets the runtime.
\<close>

theorem peltier_hot_ceiling_ignored_4o1_pro:
  "manage_peltier (initial_state\<lparr>hot_side_temp_c := 96, peltier_runtime_s := 10\<rparr>)
       80 battery_capacity_wh True 9999
     = initial_state\<lparr>hot_side_temp_c := 96, peltier_runtime_s := 10\<rparr>
   \<and> peltier_active (initial_state\<lparr>hot_side_temp_c := 96, peltier_runtime_s := 10\<rparr>)
   \<and> manage_peltier_sim2 (initial_state\<lparr>hot_side_temp_c := 96, peltier_runtime_s := 10\<rparr>)
       80 battery_capacity_wh True 9999
     = initial_state\<lparr>hot_side_temp_c := 96, peltier_runtime_s := 0, peltier_active := False\<rparr>"
  by (simp add: manage_peltier_def manage_peltier_sim2_def initial_state_def pro_consts)

subsection \<open>Canister refill\<close>

lemma canister_refill_sim2:
  assumes "canisters st ! current_canister st < 50"
      and "canisters st ! (1 - current_canister st) \<le> 50"
  shows "canisters (canister_swap_or_refill_sim2 st seconds)
           = [cooling_capacity_joules, cooling_capacity_joules]
         \<and> current_canister (canister_swap_or_refill_sim2 st seconds) = 0
         \<and> canister_swaps (canister_swap_or_refill_sim2 st seconds) = canister_swaps st + 1"
  using assms by (simp add: canister_swap_or_refill_sim2_def Let_def)

lemma canister_refill_4o1_pro:
  assumes "canisters st ! current_canister st < 50"
      and "canisters st ! (1 - current_canister st) \<le> 50"
  shows "canisters (canister_swap_or_refill st seconds)
           = map (\<lambda>c. min cooling_capacity_joules c) (canisters st)
         \<and> current_canister (canister_swap_or_refill st seconds) = 0
         \<and> canister_swaps (canister_swap_or_refill st seconds) = canister_swaps st + 1"
  using assms by (simp add: canister_swap_or_refill_def Let_def)

text \<open>
  Claim C4 (the code departs from it). With canister 0 active at 20 J and canister 1 at
  30 J the 4o1-pro block takes its refill branch, sets the index to 0 and counts a swap,
  but \<^verbatim>\<open>min(cooling_capacity_joules, c)\<close> leaves both canisters as they were; the sim2
  copy of the block fills both to 2900 J.
\<close>

theorem refill_leaves_canisters_empty_4o1_pro:
  "canisters (canister_swap_or_refill (initial_state\<lparr>canisters := [20, 30]\<rparr>) 0) = [20, 30]
   \<and> current_canister (canister_swap_or_refill (initial_state\<lparr>canisters := [20, 30]\<rparr>) 0) = 0
   \<and> canister_swaps (canister_swap_or_refill (initial_state\<lparr>canisters := [20, 30]\<rparr>) 0) = 1
   \<and> canisters (canister_swap_or_refill_sim2 (initial_state\<lparr>canisters := [20, 30]\<rparr>) 0)
       = [2900, 2900]"
  by (simp add: canister_swap_or_refill_def canister_swap_or_refill_sim2_def initial_state_def
      cooling_capacity_joules_def Let_def)

subsection \<open>What each block of the 4o1-pro loop touches\<close>

lemma manage_peltier_frame:
  "temperature_c (manage_peltier st a b c d) = temperature_c st"
  "canisters (manage_peltier st a b c d) = canisters st"
  "current_canister (manage_peltier st a b c d) = current_canister st"
  "purge_count (manage_peltier st a b c d) = purge_count st"
  "last_purge_time (manage_peltier st a b c d) = last_purge_time st"
  "contribution (manage_peltier st a b c d) = contribution st"
  "temperature_log (manage_peltier st a b c d) = temperature_log st"
  "hot_side_temp_c (manage_peltier st a b c d) = hot_side_temp_c st"
  "battery_remaining_wh (manage_peltier st a b c d) = battery_remaining_wh st"
  "fan_duty_cycle (manage_peltier st a b c d) = fan_duty_cycle st"
  "events (manage_peltier st a b c d) = events st"
  by (simp_all add: manage_peltier_def Let_def)

lemma peltier_stage_frame:
  "temperature_c (snd (peltier_stage st s)) = temperature_c st"
  "canisters (snd (peltier_stage st s)) = canisters st"
  "current_canister (snd (peltier_stage st s)) = current_canister st"
  "purge_count (snd (peltier_stage st s)) = purge_count st"
  "last_purge_time (snd (peltier_stage st s)) = last_purge_time st"
  "contribution (snd (peltier_stage st s)) = contribution st"
  "temperature_log (snd (peltier_stage st s)) = temperature_log st"
  "fan_duty_cycle (snd (peltier_stage st s)) = fan_duty_cycle st"
  "events (snd (peltier_stage st s)) = events st"
  by (simp_all add: peltier_stage_def Let_def manage_peltier_frame)

lemma peltier_stage_hot_side:
  "temperature_c st \<le> hot_side_temp_c (snd (peltier_stage st s))"
  by (simp add: peltier_stage_def Let_def manage_peltier_frame)

lemma peltier_stage_battery:
  "battery_remaining_wh st - 150 / 3600 \<le> battery_remaining_wh (snd (peltier_stage st s))"
  "battery_remaining_wh (snd (peltier_stage st s)) \<le> battery_remaining_wh st"
  by (simp_all add: peltier_stage_def Let_def manage_peltier_frame peltier_power_draw_def
      time_step_s_def)

lemma manage_fan_frame:
  "temperature_c (manage_fan st a b c d) = temperature_c st"
  "canisters (manage_fan st a b c d) = canisters st"
  "current_canister (manage_fan st a b c d) = current_canister st"
  "purge_count (manage_fan st a b c d) = purge_count st"
  "last_purge_time (manage_fan st a b c d) = last_purge_time st"
  "contribution (manage_fan st a b c d) = contribution st"
  "temperature_log (manage_fan st a b c d) = temperature_log st"
  "hot_side_temp_c (manage_fan st a b c d) = hot_side_temp_c st"
  "battery_remaining_wh (manage_fan st a b c d) = battery_remaining_wh st"
  "events (manage_fan st a b c d) = events st"
  by (simp_all add: manage_fan_def Let_def split_beta split del: if_split)

lemma manage_fan_duty:
  "0 \<le> fan_duty_cycle (manage_fan st a b c d)"
  "fan_duty_cycle (manage_fan st a b c d) \<le> 100"
  by (simp_all add: manage_fan_def Let_def split_beta split del: if_split)

lemma fan_stage_frame:
  "temperature_c (snd (fan_stage st a b c d)) = temperature_c st"
  "canisters (snd (fan_stage st a b c d)) = canisters st"
  "current_canister (snd (fan_stage st a b c d)) = current_canister st"
  "purge_count (snd (fan_stage st a b c d)) = purge_count st"
  "last_purge_time (snd (fan_stage st a b c d)) = last_purge_time st"
  "contribution (snd (fan_stage st a b c d)) = contribution st"
  "temperature_log (snd (fan_stage st a b c d)) = temperature_log st"
  "hot_side_temp_c (snd (fan_stage st a b c d)) = hot_side_temp_c st"
  "events (snd (fan_stage st a b c d)) = events st"
  by (simp_all add: fan_stage_def Let_def manage_fan_frame)

lemma fan_stage_multiplier: "1 \<le> fst (fan_stage st a b c d)"
  by (simp add: fan_stage_def Let_def fan_multiplier_ge_1)

lemma fan_stage_battery:
  "battery_remaining_wh st - 1.25 / 3600 \<le> battery_remaining_wh (snd (fan_stage st a b c d))"
  "battery_remaining_wh (snd (fan_stage st a b c d)) \<le> battery_remaining_wh st"
proof -
  let ?m = "manage_fan st (temperature_c st) a b c"
  have d: "0 \<le> fan_duty_cycle ?m" "fan_duty_cycle ?m \<le> 100"
    by (rule manage_fan_duty)+
  have b: "battery_remaining_wh ?m = battery_remaining_wh st"
    by (rule manage_fan_frame)
  have eq: "battery_remaining_wh (snd (fan_stage st a b c d))
      = (if fan_active ?m
         then battery_remaining_wh st - 0.25 * (fan_duty_cycle ?m / 100) * 5 / 3600
         else battery_remaining_wh st)"
    by (simp add: fan_stage_def Let_def b fan_power_draw_def time_step_s_def)
  show "battery_remaining_wh st - 1.25 / 3600 \<le> battery_remaining_wh (snd (fan_stage st a b c d))"
    unfolding eq using d by simp
  show "battery_remaining_wh (snd (fan_stage st a b c d)) \<le> battery_remaining_wh st"
    unfolding eq using d by simp
qed

lemma thermal_phase_frame:
  "temperature_c (phase_state (thermal_phase st t)) = temperature_c st"
  "canisters (phase_state (thermal_phase st t)) = canisters st"
  "current_canister (phase_state (thermal_phase st t)) = current_canister st"
  "purge_count (phase_state (thermal_phase st t)) = purge_count st"
  "last_purge_time (phase_state (thermal_phase st t)) = last_purge_time st"
  "temperature_log (phase_state (thermal_phase st t)) = temperature_log st"
  "events (phase_state (thermal_phase st t)) = events st"
  by (simp_all add: thermal_phase_def phase_state_def Let_def split_beta
      peltier_stage_frame fan_stage_frame split del: if_split)

lemma thermal_phase_hot_side:
  "temperature_c st \<le> hot_side_temp_c (phase_state (thermal_phase st t))"
  using peltier_stage_hot_side [of "st\<lparr>post_purge_timer := x\<rparr>" for x]
  by (simp add: thermal_phase_def phase_state_def Let_def split_beta
      fan_stage_frame split del: if_split)

lemma thermal_phase_multiplier: "1 \<le> phase_fan_multiplier (thermal_phase st t)"
  by (simp add: thermal_phase_def phase_fan_multiplier_def Let_def split_beta
      fan_stage_multiplier split del: if_split)

lemma thermal_phase_battery:
  "battery_remaining_wh st - 151.25 / 3600
     \<le> battery_remaining_wh (phase_state (thermal_phase st t))"
  "battery_remaining_wh (phase_state (thermal_phase st t)) \<le> battery_remaining_wh st"
proof -
  let ?tm = "snd (post_purge_window (int t * time_step_s) (last_purge_time st))"
  let ?pp = "fst (post_purge_window (int t * time_step_s) (last_purge_time st))"
  let ?s1 = "st\<lparr>post_purge_timer := ?tm\<rparr>"
  let ?s2 = "snd (peltier_stage ?s1 (int t * time_step_s - last_purge_time st))"
  let ?s3 = "snd (fan_stage ?s2 ?pp (int t * time_step_s - last_purge_time st)
                  (int t * time_step_s) ?tm)"
  have eq: "battery_remaining_wh (phase_state (thermal_phase st t)) = battery_remaining_wh ?s3"
    by (simp add: thermal_phase_def phase_state_def Let_def split_beta split del: if_split)
  have p: "battery_remaining_wh ?s1 - 150 / 3600 \<le> battery_remaining_wh ?s2"
      "battery_remaining_wh ?s2 \<le> battery_remaining_wh ?s1"
    by (rule peltier_stage_battery)+
  have f: "battery_remaining_wh ?s2 - 1.25 / 3600 \<le> battery_remaining_wh ?s3"
      "battery_remaining_wh ?s3 \<le> battery_remaining_wh ?s2"
    by (rule fan_stage_battery)+
  show "battery_remaining_wh st - 151.25 / 3600
     \<le> battery_remaining_wh (phase_state (thermal_phase st t))"
    unfolding eq using p f by simp
  show "battery_remaining_wh (phase_state (thermal_phase st t)) \<le> battery_remaining_wh st"
    unfolding eq using p f by simp
qed

lemma thermal_phase_ledger:
  "cc_co2_hiss (contribution (phase_state (thermal_phase st t)))
     = cc_co2_hiss (contribution st) + phase_hiss_energy (thermal_phase st t)"
  "cc_co2_purge (contribution (phase_state (thermal_phase st t)))
     = cc_co2_purge (contribution st)"
  by (simp_all add: thermal_phase_def phase_state_def phase_hiss_energy_def Let_def split_beta
      peltier_stage_frame fan_stage_frame track_contributions_def time_step_s_def
      split del: if_split)

lemma hiss_energy_now_bounds:
  "0 \<le> hiss_energy_now st s" "hiss_energy_now st s \<le> 3"
  "0 < hiss_energy_now st s \<Longrightarrow> 0 < canisters st ! current_canister st"
  by (auto simp add: hiss_energy_now_def microburst_schedule_def Let_def split: if_splits)

lemma thermal_phase_hiss:
  "0 \<le> phase_hiss_energy (thermal_phase st t)"
  "phase_hiss_energy (thermal_phase st t) \<le> 3"
  "0 < phase_hiss_energy (thermal_phase st t) \<Longrightarrow> 0 < canisters st ! current_canister st"
proof -
  have eq: "phase_hiss_energy (thermal_phase st t)
      = hiss_energy_now (st\<lparr>post_purge_timer :=
            snd (post_purge_window (int t * time_step_s) (last_purge_time st))\<rparr>)
          (int t * time_step_s)"
    by (simp add: thermal_phase_def phase_hiss_energy_def Let_def split_beta split del: if_split)
  show "0 \<le> phase_hiss_energy (thermal_phase st t)"
    "phase_hiss_energy (thermal_phase st t) \<le> 3"
    unfolding eq by (rule hiss_energy_now_bounds)+
  assume "0 < phase_hiss_energy (thermal_phase st t)"
  then show "0 < canisters st ! current_canister st"
    unfolding eq using hiss_energy_now_bounds(3) by fastforce
qed

lemma emergency_purge_frame:
  "hot_side_temp_c (emergency_purge st m s) = hot_side_temp_c st"
  "current_canister (emergency_purge st m s) = current_canister st"
  "battery_remaining_wh (emergency_purge st m s) = battery_remaining_wh st"
  "temperature_log (emergency_purge st m s) = temperature_log st"
  "length (canisters (emergency_purge st m s)) = length (canisters st)"
  "cc_co2_hiss (contribution (emergency_purge st m s)) = cc_co2_hiss (contribution st)"
  by (simp_all add: emergency_purge_def Let_def)

lemma emergency_purge_temperature:
  "0 \<le> m \<Longrightarrow> temperature_c (emergency_purge st m s) \<le> temperature_c st"
  by (simp add: emergency_purge_def Let_def pro_consts)

lemma sum_list_update2:
  fixes xs :: "real list"
  assumes "length xs = 2" "i < 2"
  shows "sum_list (xs[i := v]) = sum_list xs - xs ! i + v"
proof -
  obtain a b where xs: "xs = [a, b]"
    using assms(1) by (cases xs; cases "tl xs") auto
  from assms(2) have "i = 0 \<or> i = 1" by auto
  then show ?thesis using xs by auto
qed

lemma emergency_purge_ledger:
  assumes "length (canisters st) = 2" "current_canister st < 2"
  shows "co2_ledger (emergency_purge st m s) = co2_ledger st"
  using assms
  by (simp add: emergency_purge_def co2_ledger_def Let_def sum_list_update2)

lemma canister_swap_frame:
  "hot_side_temp_c (canister_swap_or_refill st s) = hot_side_temp_c st"
  "temperature_c (canister_swap_or_refill st s) = temperature_c st"
  "battery_remaining_wh (canister_swap_or_refill st s) = battery_remaining_wh st"
  "temperature_log (canister_swap_or_refill st s) = temperature_log st"
  "contribution (canister_swap_or_refill st s) = contribution st"
  "length (canisters (canister_swap_or_refill st s)) = length (canisters st)"
  by (simp_all add: canister_swap_or_refill_def Let_def)

lemma canister_swap_index:
  "current_canister st < 2 \<Longrightarrow> current_canister (canister_swap_or_refill st s) < 2"
  by (auto simp add: canister_swap_or_refill_def Let_def)

lemma canister_swap_no_refill:
  assumes "\<not> (canisters st ! current_canister st < 50
              \<and> canisters st ! (1 - current_canister st) \<le> 50)"
  shows "canisters (canister_swap_or_refill st s) = canisters st"
    and "50 \<le> canisters (canister_swap_or_refill st s)
                 ! current_canister (canister_swap_or_refill st s)"
  using assms by (auto simp add: canister_swap_or_refill_def Let_def)

lemma apply_microburst_usage_frame:
  "hot_side_temp_c (apply_microburst_usage st h) = hot_side_temp_c st"
  "temperature_c (apply_microburst_usage st h) = temperature_c st"
  "battery_remaining_wh (apply_microburst_usage st h) = battery_remaining_wh st"
  "temperature_log (apply_microburst_usage st h) = temperature_log st"
  "contribution (apply_microburst_usage st h) = contribution st"
  "current_canister (apply_microburst_usage st h) = current_canister st"
  "peak_temp_c (apply_microburst_usage st h) = peak_temp_c st"
  by (simp_all add: apply_microburst_usage_def)

lemma net_temperature_update_frame:
  "hot_side_temp_c (net_temperature_update st p c) = hot_side_temp_c st"
  "battery_remaining_wh (net_temperature_update st p c) = battery_remaining_wh st"
  "contribution (net_temperature_update st p c) = contribution st"
  "canisters (net_temperature_update st p c) = canisters st"
  "current_canister (net_temperature_update st p c) = current_canister st"
  "length (temperature_log (net_temperature_update st p c)) = Suc (length (temperature_log st))"
  by (simp_all add: net_temperature_update_def Let_def)

lemma periodic_status_frame:
  "hot_side_temp_c (periodic_status st s) = hot_side_temp_c st"
  "temperature_c (periodic_status st s) = temperature_c st"
  "battery_remaining_wh (periodic_status st s) = battery_remaining_wh st"
  "contribution (periodic_status st s) = contribution st"
  "canisters (periodic_status st s) = canisters st"
  "current_canister (periodic_status st s) = current_canister st"
  "temperature_log (periodic_status st s) = temperature_log st"
  by (simp_all add: periodic_status_def)

lemma loop_body_unfold:
  "loop_body st t =
     periodic_status
       (net_temperature_update
          (apply_microburst_usage (after_swap st t) (phase_hiss_energy (thermal_phase st t)))
          (phase_cpu_power (thermal_phase st t)) (phase_total_cooling (thermal_phase st t)))
       (int t * time_step_s)"
  by (simp add: loop_body_def after_swap_def after_purge_def Let_def split_beta
      phase_state_def phase_cpu_power_def phase_hiss_energy_def phase_fan_multiplier_def
      phase_total_cooling_def)

lemma after_purge_frame:
  "hot_side_temp_c (after_purge st t) = hot_side_temp_c (phase_state (thermal_phase st t))"
  "current_canister (after_purge st t) = current_canister st"
  "length (canisters (after_purge st t)) = length (canisters st)"
  "temperature_c (after_purge st t) \<le> temperature_c st"
  "temperature_log (after_purge st t) = temperature_log st"
  "battery_remaining_wh (after_purge st t)
     = battery_remaining_wh (phase_state (thermal_phase st t))"
  using thermal_phase_multiplier [of st t]
    emergency_purge_temperature [of "phase_fan_multiplier (thermal_phase st t)"
      "phase_state (thermal_phase st t)" "int t * time_step_s"]
  by (simp_all add: after_purge_def emergency_purge_frame thermal_phase_frame)

lemma loop_body_hot_side:
  "hot_side_temp_c (loop_body st t) = hot_side_temp_c (phase_state (thermal_phase st t))"
  by (simp add: loop_body_unfold periodic_status_frame net_temperature_update_frame
      apply_microburst_usage_frame after_swap_def canister_swap_frame after_purge_frame)

lemma loop_body_battery:
  "battery_remaining_wh (loop_body st t)
     = battery_remaining_wh (phase_state (thermal_phase st t))"
  by (simp add: loop_body_unfold periodic_status_frame net_temperature_update_frame
      apply_microburst_usage_frame after_swap_def canister_swap_frame after_purge_frame)

lemma loop_body_log:
  "length (temperature_log (loop_body st t)) = Suc (length (temperature_log st))"
  by (simp add: loop_body_unfold periodic_status_frame net_temperature_update_frame
      apply_microburst_usage_frame after_swap_def canister_swap_frame after_purge_frame)

subsection \<open>What each block of laptop_sim's loop touches\<close>

lemma peltier_decision_ls_frame:
  "temperature_c (peltier_decision_ls st d) = temperature_c st"
  "canisters (peltier_decision_ls st d) = canisters st"
  "current_canister (peltier_decision_ls st d) = current_canister st"
  "purge_count (peltier_decision_ls st d) = purge_count st"
  "last_purge_time (peltier_decision_ls st d) = last_purge_time st"
  "contribution (peltier_decision_ls st d) = contribution st"
  "temperature_log (peltier_decision_ls st d) = temperature_log st"
  "hot_side_temp_c (peltier_decision_ls st d) = hot_side_temp_c st"
  "battery_remaining_wh (peltier_decision_ls st d) = battery_remaining_wh st"
  "fan_duty_cycle (peltier_decision_ls st d) = fan_duty_cycle st"
  by (simp_all add: peltier_decision_ls_def Let_def)

lemma peltier_stage_ls_frame:
  "temperature_c (snd (peltier_stage_ls dt st s)) = temperature_c st"
  "canisters (snd (peltier_stage_ls dt st s)) = canisters st"
  "current_canister (snd (peltier_stage_ls dt st s)) = current_canister st"
  "purge_count (snd (peltier_stage_ls dt st s)) = purge_count st"
  "last_purge_time (snd (peltier_stage_ls dt st s)) = last_purge_time st"
  "temperature_log (snd (peltier_stage_ls dt st s)) = temperature_log st"
  "fan_duty_cycle (snd (peltier_stage_ls dt st s)) = fan_duty_cycle st"
  "cc_co2_hiss (contribution (snd (peltier_stage_ls dt st s))) = cc_co2_hiss (contribution st)"
  "cc_co2_purge (contribution (snd (peltier_stage_ls dt st s))) = cc_co2_purge (contribution st)"
  by (simp_all add: peltier_stage_ls_def Let_def peltier_decision_ls_frame)

lemma fan_stage_ls_frame:
  "temperature_c (snd (fan_stage_ls dt st a b c)) = temperature_c st"
  "canisters (snd (fan_stage_ls dt st a b c)) = canisters st"
  "current_canister (snd (fan_stage_ls dt st a b c)) = current_canister st"
  "purge_count (snd (fan_stage_ls dt st a b c)) = purge_count st"
  "last_purge_time (snd (fan_stage_ls dt st a b c)) = last_purge_time st"
  "contribution (snd (fan_stage_ls dt st a b c)) = contribution st"
  "temperature_log (snd (fan_stage_ls dt st a b c)) = temperature_log st"
  "hot_side_temp_c (snd (fan_stage_ls dt st a b c)) = hot_side_temp_c st"
  by (simp_all add: fan_stage_ls_def Let_def split_beta
      if_distrib [of temperature_c] if_distrib [of canisters] if_distrib [of current_canister]
      if_distrib [of purge_count] if_distrib [of last_purge_time] if_distrib [of contribution]
      if_distrib [of temperature_log] if_distrib [of hot_side_temp_c]
      split del: if_split cong: if_cong)

lemma fan_stage_ls_multiplier: "1 \<le> fst (fan_stage_ls dt st a b c)"
  by (simp add: fan_stage_ls_def Let_def split_beta fan_multiplier_ls_ge_1 split del: if_split)

lemma thermal_phase_ls_frame:
  "temperature_c (phase_state (thermal_phase_ls dt st t)) = temperature_c st"
  "canisters (phase_state (thermal_phase_ls dt st t)) = canisters st"
  "current_canister (phase_state (thermal_phase_ls dt st t)) = current_canister st"
  "purge_count (phase_state (thermal_phase_ls dt st t)) = purge_count st"
  "last_purge_time (phase_state (thermal_phase_ls dt st t)) = last_purge_time st"
  "temperature_log (phase_state (thermal_phase_ls dt st t)) = temperature_log st"
  by (simp_all add: thermal_phase_ls_def phase_state_def Let_def split_beta
      peltier_stage_ls_frame fan_stage_ls_frame split del: if_split)

lemma thermal_phase_ls_multiplier: "1 \<le> phase_fan_multiplier (thermal_phase_ls dt st t)"
  by (simp add: thermal_phase_ls_def phase_fan_multiplier_def Let_def split_beta
      fan_stage_ls_multiplier split del: if_split)

lemma thermal_phase_ls_ledger:
  "cc_co2_hiss (contribution (phase_state (thermal_phase_ls dt st t)))
     = cc_co2_hiss (contribution st) + phase_hiss_energy (thermal_phase_ls dt st t)"
  "cc_co2_purge (contribution (phase_state (thermal_phase_ls dt st t)))
     = cc_co2_purge (contribution st)"
  by (simp_all add: thermal_phase_ls_def phase_state_def phase_hiss_energy_def Let_def split_beta
      peltier_stage_ls_frame fan_stage_ls_frame split del: if_split)

lemma thermal_phase_ls_hiss:
  "phase_hiss_energy (thermal_phase_ls dt st t) = hiss_energy_now_ls st (int t * dt)"
  by (simp add: thermal_phase_ls_def phase_hiss_energy_def Let_def split_beta split del: if_split)

lemma hiss_energy_now_ls_bounds:
  "0 \<le> hiss_energy_now_ls st s" "hiss_energy_now_ls st s \<le> 3"
  "0 < hiss_energy_now_ls st s \<Longrightarrow> 0 < canisters st ! current_canister st"
  by (auto simp add: hiss_energy_now_ls_def microburst_schedule_ls_def Let_def split: if_splits)

lemma emergency_purge_ls_frame:
  "hot_side_temp_c (emergency_purge_ls st m s) = hot_side_temp_c st"
  "current_canister (emergency_purge_ls st m s) = current_canister st"
  "battery_remaining_wh (emergency_purge_ls st m s) = battery_remaining_wh st"
  "temperature_log (emergency_purge_ls st m s) = temperature_log st"
  "length (canisters (emergency_purge_ls st m s)) = length (canisters st)"
  "cc_co2_hiss (contribution (emergency_purge_ls st m s)) = cc_co2_hiss (contribution st)"
  by (simp_all add: emergency_purge_ls_def Let_def)

lemma emergency_purge_ls_ledger:
  assumes "length (canisters st) = 2" "current_canister st < 2"
  shows "co2_ledger (emergency_purge_ls st m s) = co2_ledger st"
  using assms
  by (simp add: emergency_purge_ls_def co2_ledger_def Let_def sum_list_update2)

lemma canister_swap_ls_frame:
  "hot_side_temp_c (canister_swap_ls st s) = hot_side_temp_c st"
  "temperature_c (canister_swap_ls st s) = temperature_c st"
  "battery_remaining_wh (canister_swap_ls st s) = battery_remaining_wh st"
  "temperature_log (canister_swap_ls st s) = temperature_log st"
  "contribution (canister_swap_ls st s) = contribution st"
  "canisters (canister_swap_ls st s) = canisters st"
  by (simp_all add: canister_swap_ls_def)

lemma canister_swap_ls_index:
  "current_canister st < 2 \<Longrightarrow> current_canister (canister_swap_ls st s) < 2"
  by (simp add: canister_swap_ls_def)

lemma net_temperature_update_ls_frame:
  "hot_side_temp_c (net_temperature_update_ls dt st p c s) = hot_side_temp_c st"
  "battery_remaining_wh (net_temperature_update_ls dt st p c s) = battery_remaining_wh st"
  "contribution (net_temperature_update_ls dt st p c s) = contribution st"
  "canisters (net_temperature_update_ls dt st p c s) = canisters st"
  "current_canister (net_temperature_update_ls dt st p c s) = current_canister st"
  "length (temperature_log (net_temperature_update_ls dt st p c s))
     = Suc (length (temperature_log st))"
  "temperature_c (net_temperature_update_ls dt st p c s)
     = temperature_c st + (p - c) * real_of_int dt / THERMAL_MASS_J_PER_C"
  by (simp_all add: net_temperature_update_ls_def Let_def)

lemma loop_body_ls_unfold:
  "loop_body_ls dt st t =
     net_temperature_update_ls dt
       (apply_hiss_usage_ls (after_swap_ls dt st t) (phase_hiss_energy (thermal_phase_ls dt st t)))
       (phase_cpu_power (thermal_phase_ls dt st t))
       (phase_total_cooling (thermal_phase_ls dt st t)) (int t * dt)"
  by (simp add: loop_body_ls_def after_swap_ls_def after_purge_ls_def Let_def split_beta
      phase_state_def phase_cpu_power_def phase_hiss_energy_def phase_fan_multiplier_def
      phase_total_cooling_def)

lemma loop_body_ls_log:
  "length (temperature_log (loop_body_ls dt st t)) = Suc (length (temperature_log st))"
  by (simp add: loop_body_ls_unfold net_temperature_update_ls_frame apply_hiss_usage_ls_def
      after_swap_ls_def canister_swap_ls_frame after_purge_ls_def emergency_purge_ls_frame
      thermal_phase_ls_frame)

subsection \<open>Emergency purge\<close>

lemma thermal_phase_purge_inputs:
  "temperature_c (phase_state (thermal_phase st t)) = temperature_c st
   \<and> canisters (phase_state (thermal_phase st t)) = canisters st
   \<and> current_canister (phase_state (thermal_phase st t)) = current_canister st
   \<and> purge_count (phase_state (thermal_phase st t)) = purge_count st
   \<and> last_purge_time (phase_state (thermal_phase st t)) = last_purge_time st"
  by (simp add: thermal_phase_frame)

lemma purge_block_4o1_pro:
  assumes "temperature_c st > critical_temp_c
           \<or> (temperature_c st > emergency_temp_c
               \<and> canisters st ! current_canister st < cooling_capacity_joules * 0.15)"
  shows "if canisters st ! current_canister st \<ge> cooling_capacity_joules * purge_efficiency
         then temperature_c (after_purge st t)
                = temperature_c st
                  - (cooling_capacity_joules * purge_efficiency / thermal_mass_j_per_c)
                    * phase_fan_multiplier (thermal_phase st t)
              \<and> canisters (after_purge st t)
                = (canisters st)[current_canister st :=
                     canisters st ! current_canister st
                     - cooling_capacity_joules * purge_efficiency]
              \<and> purge_count (after_purge st t) = purge_count st + 1
              \<and> last_purge_time (after_purge st t) = int t * time_step_s
         else after_purge st t = phase_state (thermal_phase st t)
              \<and> temperature_c (after_purge st t) = temperature_c st
              \<and> canisters (after_purge st t) = canisters st
              \<and> purge_count (after_purge st t) = purge_count st
              \<and> last_purge_time (after_purge st t) = last_purge_time st"
proof -
  let ?s = "phase_state (thermal_phase st t)"
  have c: "temperature_c ?s > critical_temp_c
           \<or> (temperature_c ?s > emergency_temp_c
               \<and> canisters ?s ! current_canister ?s < cooling_capacity_joules * 0.15)"
    using assms by (simp add: thermal_phase_frame)
  show ?thesis
  proof (cases "canisters st ! current_canister st \<ge> cooling_capacity_joules * purge_efficiency")
    case True
    then have e: "canisters ?s ! current_canister ?s \<ge> cooling_effective_joules"
      by (simp add: thermal_phase_frame cooling_effective_joules_def)
    show ?thesis
      using True c e
      by (simp add: after_purge_def emergency_purge_def Let_def thermal_phase_frame
          cooling_effective_joules_def cooldown_per_purge_c_def)
  next
    case False
    then have e: "\<not> canisters ?s ! current_canister ?s \<ge> cooling_effective_joules"
      by (simp add: thermal_phase_frame cooling_effective_joules_def)
    show ?thesis
      using False e by (simp add: after_purge_def emergency_purge_def Let_def thermal_phase_frame)
  qed
qed

lemma purge_block_ls:
  assumes "temperature_c st > CRITICAL_TEMP_C
           \<or> (temperature_c st > EMERGENCY_TEMP_C
               \<and> canisters st ! current_canister st < COOLING_CAPACITY_JOULES * 0.10)"
  shows "if canisters st ! current_canister st \<ge> COOLING_CAPACITY_JOULES * PURGE_EFFICIENCY
         then temperature_c (after_purge_ls dt st t)
                = temperature_c st
                  - (COOLING_CAPACITY_JOULES * PURGE_EFFICIENCY / THERMAL_MASS_J_PER_C)
                    * phase_fan_multiplier (thermal_phase_ls dt st t)
              \<and> canisters (after_purge_ls dt st t)
                = (canisters st)[current_canister st :=
                     canisters st ! current_canister st
                     - COOLING_CAPACITY_JOULES * PURGE_EFFICIENCY]
              \<and> purge_count (after_purge_ls dt st t) = purge_count st + 1
              \<and> last_purge_time (after_purge_ls dt st t) = int t * dt
         else after_purge_ls dt st t = phase_state (thermal_phase_ls dt st t)
              \<and> temperature_c (after_purge_ls dt st t) = temperature_c st
              \<and> canisters (after_purge_ls dt st t) = canisters st
              \<and> purge_count (after_purge_ls dt st t) = purge_count st
              \<and> last_purge_time (after_purge_ls dt st t) = last_purge_time st"
proof -
  let ?s = "phase_state (thermal_phase_ls dt st t)"
  have c: "(canisters ?s ! current_canister ?s < COOLING_CAPACITY_JOULES * 0.10
            \<and> temperature_c ?s > EMERGENCY_TEMP_C) \<or> temperature_c ?s > 85"
    using assms by (auto simp add: thermal_phase_ls_frame CRITICAL_TEMP_C_def)
  show ?thesis
  proof (cases "canisters st ! current_canister st \<ge> COOLING_CAPACITY_JOULES * PURGE_EFFICIENCY")
    case True
    then have e: "canisters ?s ! current_canister ?s \<ge> COOLING_EFFECTIVE_JOULES"
      by (simp add: thermal_phase_ls_frame COOLING_EFFECTIVE_JOULES_def)
    show ?thesis
      using True c e
      by (simp add: after_purge_ls_def emergency_purge_ls_def Let_def thermal_phase_ls_frame
          COOLING_EFFECTIVE_JOULES_def COOLDOWN_PER_PURGE_C_def)
  next
    case False
    then have e: "\<not> canisters ?s ! current_canister ?s \<ge> COOLING_EFFECTIVE_JOULES"
      by (simp add: thermal_phase_ls_frame COOLING_EFFECTIVE_JOULES_def)
    show ?thesis
      using False e
      by (simp add: after_purge_ls_def emergency_purge_ls_def Let_def thermal_phase_ls_frame)
  qed
qed

text \<open>
  Claim C1. In a step whose purge condition holds (temperature above the critical
  threshold, or above the emergency threshold with the active canister below the
  low-fuel fraction): when the active canister holds at least the purge-effective energy,
  the purge block lowers the temperature by (effective energy / thermal mass) times the
  fan multiplier, takes the effective energy from the active canister and from no other,
  adds one to \<open>purge_count\<close> and sets \<open>last_purge_time\<close> to the step's timestamp;
  when it holds less, the block returns the state as it got it. The block receives the
  temperature, the canisters and the counters the step started with. This holds in the
  4o1-pro loop and in laptop_sim's loop (whose trigger, above 85 degrees, is implied by
  above \<open>CRITICAL_TEMP_C\<close>).
\<close>

theorem purge_executes_or_is_skipped:
  "(temperature_c st > critical_temp_c
    \<or> (temperature_c st > emergency_temp_c
        \<and> canisters st ! current_canister st < cooling_capacity_joules * 0.15)
    \<longrightarrow>
      (if canisters st ! current_canister st \<ge> cooling_capacity_joules * purge_efficiency
       then temperature_c (after_purge st t)
              = temperature_c st
                - (cooling_capacity_joules * purge_efficiency / thermal_mass_j_per_c)
                  * phase_fan_multiplier (thermal_phase st t)
            \<and> canisters (after_purge st t)
              = (canisters st)[current_canister st :=
                   canisters st ! current_canister st
                   - cooling_capacity_joules * purge_efficiency]
            \<and> purge_count (after_purge st t) = purge_count st + 1
            \<and> last_purge_time (after_purge st t) = int t * time_step_s
       else after_purge st t = phase_state (thermal_phase st t)
            \<and> temperature_c (after_purge st t) = temperature_c st
            \<and> canisters (after_purge st t) = canisters st
            \<and> purge_count (after_purge st t) = purge_count st
            \<and> last_purge_time (after_purge st t) = last_purge_time st))
   \<and> (temperature_c st > CRITICAL_TEMP_C
       \<or> (temperature_c st > EMERGENCY_TEMP_C
           \<and> canisters st ! current_canister st < COOLING_CAPACITY_JOULES * 0.10)
    \<longrightarrow>
      (if canisters st ! current_canister st \<ge> COOLING_CAPACITY_JOULES * PURGE_EFFICIENCY
       then temperature_c (after_purge_ls dt st t)
              = temperature_c st
                - (COOLING_CAPACITY_JOULES * PURGE_EFFICIENCY / THERMAL_MASS_J_PER_C)
                  * phase_fan_multiplier (thermal_phase_ls dt st t)
            \<and> canisters (after_purge_ls dt st t)
              = (canisters st)[current_canister st :=
                   canisters st ! current_canister st
                   - COOLING_CAPACITY_JOULES * PURGE_EFFICIENCY]
            \<and> purge_count (after_purge_ls dt st t) = purge_count st + 1
            \<and> last_purge_time (after_purge_ls dt st t) = int t * dt
       else after_purge_ls dt st t = phase_state (thermal_phase_ls dt st t)
            \<and> temperature_c (after_purge_ls dt st t) = temperature_c st
            \<and> canisters (after_purge_ls dt st t) = canisters st
            \<and> purge_count (after_purge_ls dt st t) = purge_count st
            \<and> last_purge_time (after_purge_ls dt st t) = last_purge_time st))"
  using purge_block_4o1_pro [of st t] purge_block_ls [of st dt t] by blast

lemma fan_stage_at_91:
  "fst (fan_stage
          (snd (peltier_stage (initial_state\<lparr>temperature_c := 91, post_purge_timer := 0\<rparr>) 9999))
          False 9999 0 0) = 2.21"
  by (simp add: fan_stage_def manage_fan_def peltier_stage_frame calculate_fan_multiplier_def
      initial_state_def pro_consts Let_def)

lemma fan_multiplier_at_91:
  "phase_fan_multiplier (thermal_phase (initial_state\<lparr>temperature_c := 91\<rparr>) 0) = 2.21"
  using fan_stage_at_91
  by (simp add: thermal_phase_def phase_fan_multiplier_def post_purge_window_def Let_def split_beta
      initial_state_def conduction_duration_def time_step_s_def split del: if_split)

theorem purge_executes_or_is_skipped_witness:
  "temperature_c (initial_state\<lparr>temperature_c := 91\<rparr>) > critical_temp_c
   \<and> temperature_c (initial_state\<lparr>temperature_c := 91\<rparr>) > CRITICAL_TEMP_C
   \<and> temperature_c (after_purge (initial_state\<lparr>temperature_c := 91\<rparr>) 0)
       = 91 - (2465 / 300) * 2.21
   \<and> canisters (after_purge (initial_state\<lparr>temperature_c := 91\<rparr>) 0) = [435, 2900]
   \<and> purge_count (after_purge (initial_state\<lparr>temperature_c := 91\<rparr>) 0) = 1
   \<and> last_purge_time (after_purge (initial_state\<lparr>temperature_c := 91\<rparr>) 0) = 0
   \<and> canisters (after_purge_ls 5 (initial_state\<lparr>temperature_c := 91\<rparr>) 0) = [435, 2900]
   \<and> purge_count (after_purge_ls 5 (initial_state\<lparr>temperature_c := 91\<rparr>) 0) = 1
   \<and> canisters (after_purge (initial_state\<lparr>temperature_c := 91, canisters := [100, 2900]\<rparr>) 0)
       = [100, 2900]
   \<and> temperature_c (after_purge (initial_state\<lparr>temperature_c := 91, canisters := [100, 2900]\<rparr>) 0)
       = 91
   \<and> purge_count (after_purge (initial_state\<lparr>temperature_c := 91, canisters := [100, 2900]\<rparr>) 0)
       = 0
   \<and> canisters (after_purge_ls 5 (initial_state\<lparr>temperature_c := 91, canisters := [100, 2900]\<rparr>) 0)
       = [100, 2900]"
proof -
  let ?a = "initial_state\<lparr>temperature_c := 91\<rparr>"
  let ?b = "initial_state\<lparr>temperature_c := 91, canisters := [100, 2900]\<rparr>"
  have ha: "temperature_c ?a > critical_temp_c
            \<or> (temperature_c ?a > emergency_temp_c
                \<and> canisters ?a ! current_canister ?a < cooling_capacity_joules * 0.15)"
      "temperature_c ?a > CRITICAL_TEMP_C
            \<or> (temperature_c ?a > EMERGENCY_TEMP_C
                \<and> canisters ?a ! current_canister ?a < COOLING_CAPACITY_JOULES * 0.10)"
    by (simp_all add: critical_temp_c_def CRITICAL_TEMP_C_def)
  have hb: "temperature_c ?b > critical_temp_c
            \<or> (temperature_c ?b > emergency_temp_c
                \<and> canisters ?b ! current_canister ?b < cooling_capacity_joules * 0.15)"
      "temperature_c ?b > CRITICAL_TEMP_C
            \<or> (temperature_c ?b > EMERGENCY_TEMP_C
                \<and> canisters ?b ! current_canister ?b < COOLING_CAPACITY_JOULES * 0.10)"
    by (simp_all add: critical_temp_c_def CRITICAL_TEMP_C_def)
  have ga: "canisters ?a ! current_canister ?a \<ge> cooling_capacity_joules * purge_efficiency"
      "canisters ?a ! current_canister ?a \<ge> COOLING_CAPACITY_JOULES * PURGE_EFFICIENCY"
    by (simp_all add: initial_state_def pro_consts ls_consts)
  have gb: "\<not> canisters ?b ! current_canister ?b \<ge> cooling_capacity_joules * purge_efficiency"
      "\<not> canisters ?b ! current_canister ?b \<ge> COOLING_CAPACITY_JOULES * PURGE_EFFICIENCY"
    by (simp_all add: initial_state_def pro_consts ls_consts)
  have a: "temperature_c (after_purge ?a 0)
             = temperature_c ?a
               - (cooling_capacity_joules * purge_efficiency / thermal_mass_j_per_c) * 2.21
           \<and> canisters (after_purge ?a 0)
             = (canisters ?a)[current_canister ?a :=
                  canisters ?a ! current_canister ?a - cooling_capacity_joules * purge_efficiency]
           \<and> purge_count (after_purge ?a 0) = purge_count ?a + 1
           \<and> last_purge_time (after_purge ?a 0) = int 0 * time_step_s"
    and a': "canisters (after_purge_ls 5 ?a 0)
             = (canisters ?a)[current_canister ?a :=
                  canisters ?a ! current_canister ?a - COOLING_CAPACITY_JOULES * PURGE_EFFICIENCY]
           \<and> purge_count (after_purge_ls 5 ?a 0) = purge_count ?a + 1"
    using purge_executes_or_is_skipped
        [of ?a 0 5, unfolded fan_multiplier_at_91, THEN conjunct1, THEN mp, OF ha(1)]
      purge_executes_or_is_skipped [of ?a 0 5, THEN conjunct2, THEN mp, OF ha(2)] ga
    by simp_all
  have b: "temperature_c (after_purge ?b 0) = temperature_c ?b
           \<and> canisters (after_purge ?b 0) = canisters ?b
           \<and> purge_count (after_purge ?b 0) = purge_count ?b"
    and b': "canisters (after_purge_ls 5 ?b 0) = canisters ?b"
    using purge_executes_or_is_skipped [of ?b 0 5, THEN conjunct1, THEN mp, OF hb(1)]
      purge_executes_or_is_skipped [of ?b 0 5, THEN conjunct2, THEN mp, OF hb(2)] gb
    by (simp_all add: thermal_phase_frame thermal_phase_ls_frame)
  show ?thesis
    using a a' b b' by (simp add: initial_state_def pro_consts ls_consts)
qed

subsection \<open>Hot-side floor\<close>

lemma loop_body_temperature:
  "temperature_c (loop_body st t)
     = max (initial_temp_c * 0.8)
         (temperature_c (after_purge st t)
          + (phase_cpu_power (thermal_phase st t) - phase_total_cooling (thermal_phase st t))
            * real_of_int time_step_s / thermal_mass_j_per_c)"
  by (simp add: loop_body_unfold periodic_status_frame net_temperature_update_def Let_def
      apply_microburst_usage_frame after_swap_def canister_swap_frame)

lemma peltier_stage_initial:
  "fst (peltier_stage (initial_state\<lparr>post_purge_timer := 0\<rparr>) 9999) = 0"
  "hot_side_temp_c (snd (peltier_stage (initial_state\<lparr>post_purge_timer := 0\<rparr>) 9999)) = 25"
  by (simp_all add: peltier_stage_def manage_peltier_def initial_state_def pro_consts Let_def)

lemma fan_stage_initial:
  "fst (fan_stage (snd (peltier_stage (initial_state\<lparr>post_purge_timer := 0\<rparr>) 9999))
          False 9999 0 0) = 1"
  by (simp add: fan_stage_def manage_fan_def peltier_stage_frame calculate_fan_multiplier_def
      initial_state_def pro_consts Let_def)

lemma hiss_initial: "hiss_energy_now (initial_state\<lparr>post_purge_timer := 0\<rparr>) 0 = 0.9"
  by (simp add: hiss_energy_now_def microburst_schedule_def initial_state_def pro_consts)

lemma workload_initial: "get_cpu_workload (total_time_s initial_state) 0 = 15.725"
  by (simp add: get_cpu_workload_def initial_state_def pro_consts)

lemma post_purge_window_initial: "post_purge_window 0 (- 9999) = (False, 0)"
  by (simp add: post_purge_window_def conduction_duration_def)

lemma thermal_phase_initial:
  "phase_cpu_power (thermal_phase initial_state 0) = 15.725"
  "phase_total_cooling (thermal_phase initial_state 0) = 1.68"
  "hot_side_temp_c (phase_state (thermal_phase initial_state 0)) = 25"
  "phase_fan_multiplier (thermal_phase initial_state 0) = 1"
proof -
  have lp: "last_purge_time initial_state = - 9999"
    by (simp add: initial_state_def)
  show "phase_cpu_power (thermal_phase initial_state 0) = 15.725"
    by (simp add: thermal_phase_def phase_cpu_power_def Let_def split_beta workload_initial
        split del: if_split)
  show "phase_total_cooling (thermal_phase initial_state 0) = 1.68"
    by (simp add: thermal_phase_def phase_total_cooling_def Let_def split_beta
        post_purge_window_initial lp peltier_stage_initial fan_stage_initial hiss_initial passive_dissipation_watts_def time_step_s_def
        split del: if_split)
  show "hot_side_temp_c (phase_state (thermal_phase initial_state 0)) = 25"
    by (simp add: thermal_phase_def phase_state_def Let_def split_beta
        post_purge_window_initial lp fan_stage_frame peltier_stage_initial split del: if_split)
  show "phase_fan_multiplier (thermal_phase initial_state 0) = 1"
    by (simp add: thermal_phase_def phase_fan_multiplier_def Let_def split_beta
        post_purge_window_initial lp fan_stage_initial split del: if_split)
qed

lemma after_purge_initial: "temperature_c (after_purge initial_state 0) = 25"
  by (simp add: after_purge_def emergency_purge_def thermal_phase_frame Let_def
      initial_state_def pro_consts)

text \<open>
  Claim C2 (as stated it fails). The very first step of the 4o1-pro loop ends with the
  device at 25 + 14.045 * 5 / 300 degrees and the hot side at 25 degrees: the floor
  \<^verbatim>\<open>max(temperature_c, hot_side_temp_c)\<close> is applied when the hot side is updated, and
  the Euler integration raises the temperature afterwards.
\<close>

theorem hot_side_below_temperature_after_first_step:
  "hot_side_temp_c (loop_body initial_state 0) = 25
   \<and> temperature_c (loop_body initial_state 0) = 25 + 14.045 * 5 / 300
   \<and> \<not> hot_side_temp_c (loop_body initial_state 0) \<ge> temperature_c (loop_body initial_state 0)"
  by (simp add: loop_body_hot_side loop_body_temperature thermal_phase_initial
      after_purge_initial pro_consts)

lemma peltier_stage_ls_hot_floor:
  assumes "\<not> peltier_active (snd (peltier_stage_ls dt st s))"
  shows "temperature_c st \<le> hot_side_temp_c (snd (peltier_stage_ls dt st s))"
proof (cases "peltier_active (peltier_decision_ls st s)")
  case True
  then have "peltier_active (snd (peltier_stage_ls dt st s))"
    by (simp add: peltier_stage_ls_def Let_def)
  with assms show ?thesis by simp
next
  case False
  then show ?thesis
    by (simp add: peltier_stage_ls_def Let_def peltier_decision_ls_frame)
qed

lemma fan_stage_ls_peltier:
  "peltier_active (snd (fan_stage_ls dt st a b c)) = peltier_active st"
  by (simp add: fan_stage_ls_def Let_def split_beta if_distrib [of peltier_active]
      split del: if_split cong: if_cong)

lemma loop_body_ls_hot_side:
  "hot_side_temp_c (loop_body_ls dt st t)
     = hot_side_temp_c (phase_state (thermal_phase_ls dt st t))"
  by (simp add: loop_body_ls_unfold net_temperature_update_ls_frame apply_hiss_usage_ls_def
      after_swap_ls_def canister_swap_ls_frame after_purge_ls_def emergency_purge_ls_frame)

lemma loop_body_ls_peltier:
  "peltier_active (loop_body_ls dt st t)
     = peltier_active (phase_state (thermal_phase_ls dt st t))"
  by (simp add: loop_body_ls_unfold net_temperature_update_ls_def apply_hiss_usage_ls_def
      after_swap_ls_def canister_swap_ls_def after_purge_ls_def emergency_purge_ls_def Let_def)

lemma thermal_phase_ls_hot_floor:
  assumes "\<not> peltier_active (phase_state (thermal_phase_ls dt st t))"
  shows "temperature_c st \<le> hot_side_temp_c (phase_state (thermal_phase_ls dt st t))"
proof -
  define s1 where "s1 = st\<lparr>post_purge_timer :=
      (if 0 \<le> int t * dt - last_purge_time st
          \<and> int t * dt - last_purge_time st \<le> CONDUCTION_DURATION
       then CONDUCTION_DURATION - (int t * dt - last_purge_time st) else 0),
    contribution := (contribution st)
      \<lparr>cc_passive := cc_passive (contribution st)
                      + PASSIVE_DISSIPATION_WATTS * real_of_int dt,
       cc_canister_conduction := cc_canister_conduction (contribution st)
         + (if 0 \<le> int t * dt - last_purge_time st
               \<and> int t * dt - last_purge_time st \<le> CONDUCTION_DURATION
            then CONDUCTION_WATTS else 0) * real_of_int dt,
       cc_co2_hiss := cc_co2_hiss (contribution st) + hiss_energy_now_ls st (int t * dt)\<rparr>\<rparr>"
  have p: "peltier_active (phase_state (thermal_phase_ls dt st t))
      = peltier_active (snd (peltier_stage_ls dt s1 (int t * dt - last_purge_time st)))"
    by (simp add: thermal_phase_ls_def phase_state_def Let_def split_beta s1_def
        fan_stage_ls_peltier split del: if_split)
  have h: "hot_side_temp_c (phase_state (thermal_phase_ls dt st t))
      = hot_side_temp_c (snd (peltier_stage_ls dt s1 (int t * dt - last_purge_time st)))"
    by (simp add: thermal_phase_ls_def phase_state_def Let_def split_beta s1_def
        fan_stage_ls_frame split del: if_split)
  have "temperature_c s1 = temperature_c st" by (simp add: s1_def)
  then show ?thesis
    using assms peltier_stage_ls_hot_floor [of dt s1 "int t * dt - last_purge_time st"]
    by (simp add: p h)
qed

lemma peltier_off_after_first_step_ls:
  "\<not> peltier_active (loop_body_ls 5 (initial_state_ls 3600 5) 0)"
  by (simp add: loop_body_ls_peltier thermal_phase_ls_def phase_state_def Let_def split_beta
      fan_stage_ls_peltier peltier_stage_ls_def peltier_decision_ls_def initial_state_ls_def
      ls_consts split del: if_split)

text \<open>
  Claim C2, amended. After every step of the 4o1-pro loop the hot side is at least the
  device temperature the step started with, and at least the temperature right after the
  step's purge block; in laptop_sim's loop the hot side is at least the temperature the
  step started with after every step that leaves the Peltier off. Nothing is said about
  the temperature after the integration.
\<close>

theorem hot_side_floor_at_update:
  "temperature_c st \<le> hot_side_temp_c (loop_body st t)
   \<and> temperature_c (after_purge st t) \<le> hot_side_temp_c (loop_body st t)
   \<and> (\<not> peltier_active (loop_body_ls dt st t)
        \<longrightarrow> temperature_c st \<le> hot_side_temp_c (loop_body_ls dt st t))"
proof -
  have "temperature_c st \<le> hot_side_temp_c (loop_body st t)"
    by (simp add: loop_body_hot_side thermal_phase_hot_side)
  moreover have "temperature_c (after_purge st t) \<le> temperature_c st"
    by (rule after_purge_frame)
  moreover have "\<not> peltier_active (loop_body_ls dt st t)
      \<longrightarrow> temperature_c st \<le> hot_side_temp_c (loop_body_ls dt st t)"
    using thermal_phase_ls_hot_floor [of dt st t]
    by (simp add: loop_body_ls_peltier loop_body_ls_hot_side)
  ultimately show ?thesis by simp
qed

theorem hot_side_floor_at_update_witness:
  "\<not> peltier_active (loop_body_ls 5 (initial_state_ls 3600 5) 0)
   \<and> temperature_c (initial_state_ls 3600 5)
       \<le> hot_side_temp_c (loop_body_ls 5 (initial_state_ls 3600 5) 0)
   \<and> temperature_c (initial_state_ls 3600 5)
       \<le> hot_side_temp_c (loop_body (initial_state_ls 3600 5) 0)
   \<and> temperature_c (initial_state_ls 3600 5) = 25"
  using hot_side_floor_at_update [of "initial_state_ls 3600 5" 0 5]
    peltier_off_after_first_step_ls
  by (simp add: initial_state_ls_def INITIAL_TEMP_C_def)

subsection \<open>CO2 ledger\<close>

lemma after_purge_ledger:
  assumes "length (canisters st) = 2" "current_canister st < 2"
  shows "co2_ledger (after_purge st t) = co2_ledger st + phase_hiss_energy (thermal_phase st t)"
proof -
  have "co2_ledger (after_purge st t) = co2_ledger (phase_state (thermal_phase st t))"
    unfolding after_purge_def
    by (rule emergency_purge_ledger) (simp_all add: thermal_phase_frame assms)
  also have "\<dots> = co2_ledger st + phase_hiss_energy (thermal_phase st t)"
    by (simp add: co2_ledger_def thermal_phase_frame thermal_phase_ledger)
  finally show ?thesis .
qed

lemma after_purge_ls_ledger:
  assumes "length (canisters st) = 2" "current_canister st < 2"
  shows "co2_ledger (after_purge_ls dt st t)
         = co2_ledger st + phase_hiss_energy (thermal_phase_ls dt st t)"
proof -
  have "co2_ledger (after_purge_ls dt st t) = co2_ledger (phase_state (thermal_phase_ls dt st t))"
    unfolding after_purge_ls_def
    by (rule emergency_purge_ls_ledger) (simp_all add: thermal_phase_ls_frame assms)
  also have "\<dots> = co2_ledger st + phase_hiss_energy (thermal_phase_ls dt st t)"
    by (simp add: co2_ledger_def thermal_phase_ls_frame thermal_phase_ls_ledger)
  finally show ?thesis .
qed

lemma loop_body_ledger_parts:
  "co2_ledger (loop_body st t)
     = sum_list (canisters (apply_microburst_usage (after_swap st t)
                              (phase_hiss_energy (thermal_phase st t))))
       + cc_co2_hiss (contribution (after_purge st t))
       + cc_co2_purge (contribution (after_purge st t))"
  by (simp add: co2_ledger_def loop_body_unfold periodic_status_frame net_temperature_update_frame
      apply_microburst_usage_frame after_swap_def canister_swap_frame)

lemma loop_body_ls_ledger_parts:
  "co2_ledger (loop_body_ls dt st t)
     = sum_list (canisters (apply_hiss_usage_ls (after_swap_ls dt st t)
                              (phase_hiss_energy (thermal_phase_ls dt st t))))
       + cc_co2_hiss (contribution (after_purge_ls dt st t))
       + cc_co2_purge (contribution (after_purge_ls dt st t))"
  by (simp add: co2_ledger_def loop_body_ls_unfold net_temperature_update_ls_frame
      apply_hiss_usage_ls_def after_swap_ls_def canister_swap_ls_frame)

lemma ledger_kept_4o1_pro:
  assumes wf: "length (canisters st) = 2" "current_canister st < 2"
      and no_refill:
        "\<not> (canisters (after_purge st t) ! current_canister (after_purge st t) < 50
            \<and> canisters (after_purge st t) ! (1 - current_canister (after_purge st t)) \<le> 50)"
  shows "co2_ledger (loop_body st t) = co2_ledger st"
proof -
  let ?ap = "after_purge st t"
  let ?as = "after_swap st t"
  let ?h = "phase_hiss_energy (thermal_phase st t)"
  have len: "length (canisters ?as) = 2"
    by (simp add: after_swap_def canister_swap_frame after_purge_frame wf)
  have idx: "current_canister ?as < 2"
    unfolding after_swap_def
    by (rule canister_swap_index) (simp add: after_purge_frame wf)
  have same: "canisters ?as = canisters ?ap"
    unfolding after_swap_def using no_refill by (rule canister_swap_no_refill)
  have big: "50 \<le> canisters ?as ! current_canister ?as"
    unfolding after_swap_def using no_refill by (rule canister_swap_no_refill)
  have h: "0 \<le> ?h" "?h \<le> 3" by (rule thermal_phase_hiss)+
  have "sum_list (canisters (apply_microburst_usage ?as ?h)) = sum_list (canisters ?as) - ?h"
  proof (cases "0 < ?h")
    case True
    have "max 0 (canisters ?as ! current_canister ?as - ?h)
        = canisters ?as ! current_canister ?as - ?h"
      using big h by simp
    then show ?thesis
      using True len idx by (simp add: apply_microburst_usage_def sum_list_update2)
  next
    case False
    then have "?h = 0" using h by simp
    then show ?thesis by (simp add: apply_microburst_usage_def)
  qed
  then have "co2_ledger (loop_body st t)
      = sum_list (canisters ?ap) - ?h + cc_co2_hiss (contribution ?ap)
        + cc_co2_purge (contribution ?ap)"
    by (simp add: loop_body_ledger_parts same)
  then have "co2_ledger (loop_body st t) = co2_ledger ?ap - ?h"
    by (simp add: co2_ledger_def)
  then show ?thesis
    by (simp add: after_purge_ledger wf)
qed

lemma ledger_kept_ls:
  assumes wf: "length (canisters st) = 2" "current_canister st < 2"
      and enough:
        "phase_hiss_energy (thermal_phase_ls dt st t)
           \<le> canisters (after_swap_ls dt st t) ! current_canister (after_swap_ls dt st t)"
  shows "co2_ledger (loop_body_ls dt st t) = co2_ledger st"
proof -
  let ?ap = "after_purge_ls dt st t"
  let ?as = "after_swap_ls dt st t"
  let ?h = "phase_hiss_energy (thermal_phase_ls dt st t)"
  have len: "length (canisters ?as) = 2"
    by (simp add: after_swap_ls_def canister_swap_ls_frame after_purge_ls_def
        emergency_purge_ls_frame thermal_phase_ls_frame wf)
  have idx: "current_canister ?as < 2"
    unfolding after_swap_ls_def
    by (rule canister_swap_ls_index)
      (simp add: after_purge_ls_def emergency_purge_ls_frame thermal_phase_ls_frame wf)
  have same: "canisters ?as = canisters ?ap"
    by (simp add: after_swap_ls_def canister_swap_ls_frame)
  have "max 0 (canisters ?as ! current_canister ?as - ?h)
      = canisters ?as ! current_canister ?as - ?h"
    using enough by simp
  then have "sum_list (canisters (apply_hiss_usage_ls ?as ?h)) = sum_list (canisters ?as) - ?h"
    using len idx by (simp add: apply_hiss_usage_ls_def sum_list_update2)
  then have "co2_ledger (loop_body_ls dt st t)
      = sum_list (canisters ?ap) - ?h + cc_co2_hiss (contribution ?ap)
        + cc_co2_purge (contribution ?ap)"
    by (simp add: loop_body_ls_ledger_parts same)
  then have "co2_ledger (loop_body_ls dt st t) = co2_ledger ?ap - ?h"
    by (simp add: co2_ledger_def)
  then show ?thesis
    by (simp add: after_purge_ls_ledger wf)
qed

lemma after_purge_cool:
  "temperature_c st \<le> emergency_temp_c \<Longrightarrow> after_purge st t = phase_state (thermal_phase st t)"
  by (simp add: after_purge_def emergency_purge_def Let_def thermal_phase_frame pro_consts)

lemma after_purge_ls_cool:
  "temperature_c st \<le> EMERGENCY_TEMP_C
     \<Longrightarrow> after_purge_ls dt st t = phase_state (thermal_phase_ls dt st t)"
  by (simp add: after_purge_ls_def emergency_purge_ls_def Let_def thermal_phase_ls_frame ls_consts)

text \<open>
  Claim C3 (as stated it fails). In laptop_sim's loop, which never refills, take canister 1
  active with 0.5 J left, canister 0 at 49.5 J, and a breakdown that has booked 3285 J of
  microbursts and one purge of 2465 J, so that the ledger stands at the initial 5800 J.
  The next step fires a 0.9 J burst: the canister is clamped at zero, losing 0.5 J, while
  0.9 J are booked and delivered as cooling. The ledger is at 5800.4 J.
\<close>

theorem hiss_clamp_breaks_ledger:
  "co2_ledger (initial_state_ls 3600 5
      \<lparr>canisters := [49.5, 0.5], current_canister := 1,
       contribution := no_contribution\<lparr>cc_co2_hiss := 3285, cc_co2_purge := 2465\<rparr>\<rparr>) = 5800
   \<and> phase_hiss_energy (thermal_phase_ls 5 (initial_state_ls 3600 5
      \<lparr>canisters := [49.5, 0.5], current_canister := 1,
       contribution := no_contribution\<lparr>cc_co2_hiss := 3285, cc_co2_purge := 2465\<rparr>\<rparr>) 0) = 0.9
   \<and> canisters (loop_body_ls 5 (initial_state_ls 3600 5
      \<lparr>canisters := [49.5, 0.5], current_canister := 1,
       contribution := no_contribution\<lparr>cc_co2_hiss := 3285, cc_co2_purge := 2465\<rparr>\<rparr>) 0)
       = [49.5, 0]
   \<and> co2_ledger (loop_body_ls 5 (initial_state_ls 3600 5
      \<lparr>canisters := [49.5, 0.5], current_canister := 1,
       contribution := no_contribution\<lparr>cc_co2_hiss := 3285, cc_co2_purge := 2465\<rparr>\<rparr>) 0)
       = 5800.4"
proof -
  define S where "S = initial_state_ls 3600 5
      \<lparr>canisters := [49.5, 0.5], current_canister := 1,
       contribution := no_contribution\<lparr>cc_co2_hiss := 3285, cc_co2_purge := 2465\<rparr>\<rparr>"
  have fields: "canisters S = [49.5, 0.5]" "current_canister S = 1" "temperature_c S = 25"
      "cc_co2_hiss (contribution S) = 3285" "cc_co2_purge (contribution S) = 2465"
    by (simp_all add: S_def initial_state_ls_def no_contribution_def INITIAL_TEMP_C_def)
  have l0: "co2_ledger S = 5800"
    by (simp add: co2_ledger_def fields)
  have h: "phase_hiss_energy (thermal_phase_ls 5 S 0) = 0.9"
    by (simp add: thermal_phase_ls_hiss hiss_energy_now_ls_def microburst_schedule_ls_def fields)
  have ap: "after_purge_ls 5 S 0 = phase_state (thermal_phase_ls 5 S 0)"
    by (rule after_purge_ls_cool) (simp add: fields EMERGENCY_TEMP_C_def)
  have sw: "canisters (after_swap_ls 5 S 0) = [49.5, 0.5]"
      "current_canister (after_swap_ls 5 S 0) = 1"
    by (simp_all add: after_swap_ls_def canister_swap_ls_def ap thermal_phase_ls_frame fields)
  have c: "canisters (loop_body_ls 5 S 0) = [49.5, 0]"
    by (simp add: loop_body_ls_unfold net_temperature_update_ls_frame apply_hiss_usage_ls_def
        sw h)
  have "co2_ledger (loop_body_ls 5 S 0) = 5800.4"
    using c[unfolded loop_body_ls_unfold net_temperature_update_ls_frame]
    by (simp add: loop_body_ls_ledger_parts ap thermal_phase_ls_ledger h fields)
  with l0 h c show ?thesis unfolding S_def by simp
qed

text \<open>
  Claim C3, amended. A step keeps the ledger (canister energies plus the energy booked to
  microbursts and purges) unchanged in the 4o1-pro loop whenever its refill branch is not
  taken, and in laptop_sim's loop whenever the canister that pays the burst holds at
  least the burst's energy. When it holds less, the canister is clamped at zero and the
  burst still counts in full.
\<close>

theorem co2_ledger_kept_unless_clamped:
  assumes "length (canisters st) = 2" and "current_canister st < 2"
  shows "(\<not> (canisters (after_purge st t) ! current_canister (after_purge st t) < 50
             \<and> canisters (after_purge st t) ! (1 - current_canister (after_purge st t)) \<le> 50)
          \<longrightarrow> co2_ledger (loop_body st t) = co2_ledger st)
       \<and> (phase_hiss_energy (thermal_phase_ls dt st t)
             \<le> canisters (after_swap_ls dt st t) ! current_canister (after_swap_ls dt st t)
          \<longrightarrow> co2_ledger (loop_body_ls dt st t) = co2_ledger st)"
  using assms ledger_kept_4o1_pro [of st t] ledger_kept_ls [of st dt t] by blast

theorem co2_ledger_kept_unless_clamped_witness:
  "length (canisters initial_state) = 2 \<and> current_canister initial_state < 2
   \<and> canisters (after_purge initial_state 0) ! current_canister (after_purge initial_state 0)
       = 2900
   \<and> phase_hiss_energy (thermal_phase_ls 5 initial_state 0) = 0.9
   \<and> canisters (after_swap_ls 5 initial_state 0) ! current_canister (after_swap_ls 5 initial_state 0)
       = 2900
   \<and> co2_ledger initial_state = 5800
   \<and> co2_ledger (loop_body initial_state 0) = 5800
   \<and> co2_ledger (loop_body_ls 5 initial_state 0) = 5800"
proof -
  have fields: "canisters initial_state = [2900, 2900]" "current_canister initial_state = 0"
      "temperature_c initial_state = 25" "contribution initial_state = no_contribution"
    by (simp_all add: initial_state_def pro_consts)
  have l0: "co2_ledger initial_state = 5800"
    by (simp add: co2_ledger_def fields no_contribution_def)
  have ap: "after_purge initial_state 0 = phase_state (thermal_phase initial_state 0)"
    by (rule after_purge_cool) (simp add: fields emergency_temp_c_def)
  have a: "canisters (after_purge initial_state 0) ! current_canister (after_purge initial_state 0)
      = 2900"
    "canisters (after_purge initial_state 0) ! (1 - current_canister (after_purge initial_state 0))
      = 2900"
    by (simp_all add: ap thermal_phase_frame fields)
  have h: "phase_hiss_energy (thermal_phase_ls 5 initial_state 0) = 0.9"
    by (simp add: thermal_phase_ls_hiss hiss_energy_now_ls_def microburst_schedule_ls_def fields)
  have apl: "after_purge_ls 5 initial_state 0 = phase_state (thermal_phase_ls 5 initial_state 0)"
    by (rule after_purge_ls_cool) (simp add: fields EMERGENCY_TEMP_C_def)
  have sw: "canisters (after_swap_ls 5 initial_state 0)
      ! current_canister (after_swap_ls 5 initial_state 0) = 2900"
    by (simp add: after_swap_ls_def canister_swap_ls_def apl thermal_phase_ls_frame fields)
  have "co2_ledger (loop_body initial_state 0) = co2_ledger initial_state
      \<and> co2_ledger (loop_body_ls 5 initial_state 0) = co2_ledger initial_state"
    using co2_ledger_kept_unless_clamped [of initial_state 0 5] a h sw
    by (simp add: fields)
  with l0 a h sw show ?thesis by (simp add: fields)
qed

subsection \<open>Which canister pays the microburst\<close>

lemma loop_body_canisters:
  "canisters (loop_body st t)
     = canisters (apply_microburst_usage (after_swap st t)
                    (phase_hiss_energy (thermal_phase st t)))"
  "current_canister (loop_body st t) = current_canister (after_swap st t)"
  by (simp_all add: loop_body_unfold periodic_status_frame net_temperature_update_frame
      apply_microburst_usage_frame)

lemma loop_body_ls_canisters:
  "canisters (loop_body_ls dt st t)
     = canisters (apply_hiss_usage_ls (after_swap_ls dt st t)
                    (phase_hiss_energy (thermal_phase_ls dt st t)))"
  "current_canister (loop_body_ls dt st t) = current_canister (after_swap_ls dt st t)"
  by (simp_all add: loop_body_ls_unfold net_temperature_update_ls_frame apply_hiss_usage_ls_def)

lemma after_swap_wf:
  assumes "length (canisters st) = 2" "current_canister st < 2"
  shows "length (canisters (after_swap st t)) = 2" "current_canister (after_swap st t) < 2"
proof -
  show "length (canisters (after_swap st t)) = 2"
    by (simp add: after_swap_def canister_swap_frame after_purge_frame assms)
  show "current_canister (after_swap st t) < 2"
    unfolding after_swap_def
    by (rule canister_swap_index) (simp add: after_purge_frame assms)
qed

lemma after_swap_ls_wf:
  assumes "length (canisters st) = 2" "current_canister st < 2"
  shows "length (canisters (after_swap_ls dt st t)) = 2"
    "current_canister (after_swap_ls dt st t) < 2"
proof -
  show "length (canisters (after_swap_ls dt st t)) = 2"
    by (simp add: after_swap_ls_def canister_swap_ls_frame after_purge_ls_def
        emergency_purge_ls_frame thermal_phase_ls_frame assms)
  show "current_canister (after_swap_ls dt st t) < 2"
    unfolding after_swap_ls_def
    by (rule canister_swap_ls_index)
      (simp add: after_purge_ls_def emergency_purge_ls_frame thermal_phase_ls_frame assms)
qed

text \<open>
  Claim C10. When a microburst fires in a step (which requires the canister active at the
  start of the step to hold energy) and the swap/refill block changes the active index in
  that step, the burst's energy is taken, clamped at zero, from the canister that is
  active after the swap, and the canister that was active at the start is left by the
  microburst as the swap block left it. This holds in the 4o1-pro loop and in
  laptop_sim's loop.
\<close>

theorem microburst_paid_by_new_canister:
  assumes "length (canisters st) = 2" and "current_canister st < 2"
  shows "(0 < phase_hiss_energy (thermal_phase st t)
          \<and> current_canister (after_swap st t) \<noteq> current_canister st
          \<longrightarrow> 0 < canisters st ! current_canister st
              \<and> current_canister (loop_body st t) = current_canister (after_swap st t)
              \<and> canisters (loop_body st t) ! current_canister (after_swap st t)
                  = max 0 (canisters (after_swap st t) ! current_canister (after_swap st t)
                           - phase_hiss_energy (thermal_phase st t))
              \<and> canisters (loop_body st t) ! current_canister st
                  = canisters (after_swap st t) ! current_canister st)
       \<and> (0 < phase_hiss_energy (thermal_phase_ls dt st t)
          \<and> current_canister (after_swap_ls dt st t) \<noteq> current_canister st
          \<longrightarrow> 0 < canisters st ! current_canister st
              \<and> current_canister (loop_body_ls dt st t) = current_canister (after_swap_ls dt st t)
              \<and> canisters (loop_body_ls dt st t) ! current_canister (after_swap_ls dt st t)
                  = max 0 (canisters (after_swap_ls dt st t)
                             ! current_canister (after_swap_ls dt st t)
                           - phase_hiss_energy (thermal_phase_ls dt st t))
              \<and> canisters (loop_body_ls dt st t) ! current_canister st
                  = canisters (after_swap_ls dt st t) ! current_canister st)"
proof (intro conjI impI)
  assume h: "0 < phase_hiss_energy (thermal_phase st t)
             \<and> current_canister (after_swap st t) \<noteq> current_canister st"
  note wf = after_swap_wf [OF assms, of t]
  from h show "0 < canisters st ! current_canister st"
    using thermal_phase_hiss(3) by blast
  show "current_canister (loop_body st t) = current_canister (after_swap st t)"
    by (rule loop_body_canisters)
  show "canisters (loop_body st t) ! current_canister (after_swap st t)
          = max 0 (canisters (after_swap st t) ! current_canister (after_swap st t)
                   - phase_hiss_energy (thermal_phase st t))"
    using h wf by (simp add: loop_body_canisters apply_microburst_usage_def)
  show "canisters (loop_body st t) ! current_canister st
          = canisters (after_swap st t) ! current_canister st"
    using h by (simp add: loop_body_canisters apply_microburst_usage_def)
next
  assume h: "0 < phase_hiss_energy (thermal_phase_ls dt st t)
             \<and> current_canister (after_swap_ls dt st t) \<noteq> current_canister st"
  note wf = after_swap_ls_wf [OF assms, of dt t]
  from h show "0 < canisters st ! current_canister st"
    using hiss_energy_now_ls_bounds(3) [of st "int t * dt"] by (simp add: thermal_phase_ls_hiss)
  show "current_canister (loop_body_ls dt st t) = current_canister (after_swap_ls dt st t)"
    by (rule loop_body_ls_canisters)
  show "canisters (loop_body_ls dt st t) ! current_canister (after_swap_ls dt st t)
          = max 0 (canisters (after_swap_ls dt st t) ! current_canister (after_swap_ls dt st t)
                   - phase_hiss_energy (thermal_phase_ls dt st t))"
    using wf by (simp add: loop_body_ls_canisters apply_hiss_usage_ls_def)
  show "canisters (loop_body_ls dt st t) ! current_canister st
          = canisters (after_swap_ls dt st t) ! current_canister st"
    using h by (simp add: loop_body_ls_canisters apply_hiss_usage_ls_def)
qed

theorem microburst_paid_by_new_canister_witness:
  "length (canisters (initial_state\<lparr>canisters := [40, 2900]\<rparr>)) = 2
   \<and> current_canister (initial_state\<lparr>canisters := [40, 2900]\<rparr>) < 2
   \<and> phase_hiss_energy (thermal_phase (initial_state\<lparr>canisters := [40, 2900]\<rparr>) 0) = 0.9
   \<and> phase_hiss_energy (thermal_phase_ls 5 (initial_state\<lparr>canisters := [40, 2900]\<rparr>) 0) = 0.9
   \<and> current_canister (initial_state\<lparr>canisters := [40, 2900]\<rparr>) = 0
   \<and> current_canister (after_swap (initial_state\<lparr>canisters := [40, 2900]\<rparr>) 0) = 1
   \<and> current_canister (after_swap_ls 5 (initial_state\<lparr>canisters := [40, 2900]\<rparr>) 0) = 1
   \<and> canisters (loop_body (initial_state\<lparr>canisters := [40, 2900]\<rparr>) 0) ! 1 = 2899.1
   \<and> canisters (loop_body (initial_state\<lparr>canisters := [40, 2900]\<rparr>) 0) ! 0 = 40
   \<and> canisters (loop_body_ls 5 (initial_state\<lparr>canisters := [40, 2900]\<rparr>) 0) ! 1 = 2899.1
   \<and> canisters (loop_body_ls 5 (initial_state\<lparr>canisters := [40, 2900]\<rparr>) 0) ! 0 = 40"
proof -
  define S where "S = initial_state\<lparr>canisters := [40, 2900]\<rparr>"
  have fields: "canisters S = [40, 2900]" "current_canister S = 0" "temperature_c S = 25"
      "last_purge_time S = - 9999"
    by (simp_all add: S_def initial_state_def pro_consts)
  have h: "phase_hiss_energy (thermal_phase S 0) = 0.9"
    by (simp add: thermal_phase_def phase_hiss_energy_def Let_def split_beta hiss_energy_now_def
        microburst_schedule_def fields time_step_s_def split del: if_split)
  have hl: "phase_hiss_energy (thermal_phase_ls 5 S 0) = 0.9"
    by (simp add: thermal_phase_ls_hiss hiss_energy_now_ls_def microburst_schedule_ls_def fields)
  have ap: "after_purge S 0 = phase_state (thermal_phase S 0)"
    by (rule after_purge_cool) (simp add: fields emergency_temp_c_def)
  have apl: "after_purge_ls 5 S 0 = phase_state (thermal_phase_ls 5 S 0)"
    by (rule after_purge_ls_cool) (simp add: fields EMERGENCY_TEMP_C_def)
  have sw: "current_canister (after_swap S 0) = 1" "canisters (after_swap S 0) = [40, 2900]"
    by (simp_all add: after_swap_def canister_swap_or_refill_def Let_def ap thermal_phase_frame
        fields)
  have swl: "current_canister (after_swap_ls 5 S 0) = 1"
      "canisters (after_swap_ls 5 S 0) = [40, 2900]"
    by (simp_all add: after_swap_ls_def canister_swap_ls_def apl thermal_phase_ls_frame fields)
  have "canisters (loop_body S 0) ! 1 = 2899.1 \<and> canisters (loop_body S 0) ! 0 = 40
      \<and> canisters (loop_body_ls 5 S 0) ! 1 = 2899.1 \<and> canisters (loop_body_ls 5 S 0) ! 0 = 40"
    using microburst_paid_by_new_canister [of S 0 5]
    by (simp add: fields h hl sw swl)
  with h hl sw swl fields show ?thesis unfolding S_def by simp
qed

subsection \<open>Battery depletion and the end of the run\<close>

lemma stage_n_steps:
  "n_steps (manage_peltier st a b c d) = n_steps st"
  "n_steps (snd (peltier_stage st s)) = n_steps st"
  "n_steps (manage_fan st a' b' c' d') = n_steps st"
  "n_steps (emergency_purge st m s) = n_steps st"
  "n_steps (canister_swap_or_refill st s) = n_steps st"
  "n_steps (apply_microburst_usage st h) = n_steps st"
  "n_steps (net_temperature_update st p q) = n_steps st"
  "n_steps (periodic_status st s) = n_steps st"
proof -
  show m: "n_steps (manage_peltier st a b c d) = n_steps st" for st a b c d
    by (simp add: manage_peltier_def Let_def)
  show "n_steps (snd (peltier_stage st s)) = n_steps st"
    by (simp add: peltier_stage_def Let_def m)
  show "n_steps (manage_fan st a' b' c' d') = n_steps st"
    by (simp add: manage_fan_def Let_def split_beta split del: if_split)
  show "n_steps (emergency_purge st m s) = n_steps st"
    by (simp add: emergency_purge_def Let_def)
  show "n_steps (canister_swap_or_refill st s) = n_steps st"
    by (simp add: canister_swap_or_refill_def Let_def)
  show "n_steps (apply_microburst_usage st h) = n_steps st"
    by (simp add: apply_microburst_usage_def)
  show "n_steps (net_temperature_update st p q) = n_steps st"
    by (simp add: net_temperature_update_def Let_def)
  show "n_steps (periodic_status st s) = n_steps st"
    by (simp add: periodic_status_def)
qed

lemma fan_stage_n_steps: "n_steps (snd (fan_stage st a b c d)) = n_steps st"
  by (simp add: fan_stage_def Let_def stage_n_steps)

lemma thermal_phase_n_steps: "n_steps (phase_state (thermal_phase st t)) = n_steps st"
  by (simp add: thermal_phase_def phase_state_def Let_def split_beta stage_n_steps
      fan_stage_n_steps split del: if_split)

lemma loop_body_n_steps: "n_steps (loop_body st t) = n_steps st"
  by (simp add: loop_body_unfold after_swap_def after_purge_def stage_n_steps
      thermal_phase_n_steps)

lemma all_steps_Cons: "all_steps (t # ts) st = all_steps ts (loop_body st t)"
  by (simp add: all_steps_def)

lemma all_steps_Nil: "all_steps [] st = st"
  by (simp add: all_steps_def)

lemma all_steps_n_steps: "n_steps (all_steps ts st) = n_steps st"
  by (induction ts arbitrary: st) (simp_all add: all_steps_Nil all_steps_Cons loop_body_n_steps)

lemma all_steps_log:
  "length (temperature_log (all_steps ts st)) = length (temperature_log st) + length ts"
  by (induction ts arbitrary: st) (simp_all add: all_steps_Nil all_steps_Cons loop_body_log)

lemma run_steps_no_halt:
  assumes "\<forall>k < length ts. 0 < battery_remaining_wh (all_steps (take (Suc k) ts) st)"
  shows "run_steps ts st = all_steps ts st"
  using assms
proof (induction ts arbitrary: st)
  case Nil
  show ?case by (simp add: all_steps_Nil)
next
  case (Cons t ts)
  from Cons.prems have first: "0 < battery_remaining_wh (loop_body st t)"
    by (auto simp add: all_steps_Cons all_steps_Nil dest: spec [of _ 0])
  have rest: "\<forall>k < length ts.
      0 < battery_remaining_wh (all_steps (take (Suc k) ts) (loop_body st t))"
  proof (intro allI impI)
    fix k assume "k < length ts"
    then have "Suc k < length (t # ts)" by simp
    with Cons.prems
    have "0 < battery_remaining_wh (all_steps (take (Suc (Suc k)) (t # ts)) st)" by blast
    then show "0 < battery_remaining_wh (all_steps (take (Suc k) ts) (loop_body st t))"
      by (simp add: all_steps_Cons)
  qed
  have "run_steps (t # ts) st = run_steps ts (loop_body st t)"
    using first by (simp add: Let_def)
  also have "\<dots> = all_steps ts (loop_body st t)"
    using rest by (rule Cons.IH)
  finally show ?case by (simp add: all_steps_Cons)
qed

lemma run_steps_halt:
  assumes "k < length ts"
      and "\<forall>j < k. 0 < battery_remaining_wh (all_steps (take (Suc j) ts) st)"
      and "battery_remaining_wh (all_steps (take (Suc k) ts) st) \<le> 0"
  shows "run_steps ts st = battery_halt (all_steps (take (Suc k) ts) st) (ts ! k)"
  using assms
proof (induction ts arbitrary: st k)
  case Nil
  then show ?case by simp
next
  case (Cons t ts)
  show ?case
  proof (cases k)
    case 0
    with Cons.prems(3) have "battery_remaining_wh (loop_body st t) \<le> 0"
      by (simp add: all_steps_Cons all_steps_Nil)
    with 0 show ?thesis by (simp add: Let_def all_steps_Cons all_steps_Nil)
  next
    case (Suc k')
    with Cons.prems(2) have "0 < battery_remaining_wh (all_steps (take (Suc 0) (t # ts)) st)"
      by blast
    then have first: "0 < battery_remaining_wh (loop_body st t)"
      by (simp add: all_steps_Cons all_steps_Nil)
    have k': "k' < length ts" using Cons.prems(1) Suc by simp
    have before: "\<forall>j < k'.
        0 < battery_remaining_wh (all_steps (take (Suc j) ts) (loop_body st t))"
    proof (intro allI impI)
      fix j assume "j < k'"
      then have "Suc j < k" using Suc by simp
      with Cons.prems(2)
      have "0 < battery_remaining_wh (all_steps (take (Suc (Suc j)) (t # ts)) st)" by blast
      then show "0 < battery_remaining_wh (all_steps (take (Suc j) ts) (loop_body st t))"
        by (simp add: all_steps_Cons)
    qed
    have at: "battery_remaining_wh (all_steps (take (Suc k') ts) (loop_body st t)) \<le> 0"
      using Cons.prems(3) Suc by (simp add: all_steps_Cons)
    have "run_steps (t # ts) st = run_steps ts (loop_body st t)"
      using first by (simp add: Let_def)
    also have "\<dots> = battery_halt (all_steps (take (Suc k') ts) (loop_body st t)) (ts ! k')"
      using k' before at by (rule Cons.IH)
    finally show ?thesis using Suc by (simp add: all_steps_Cons)
  qed
qed

lemma run_steps_ls_log:
  "length (temperature_log (run_steps_ls dt ts st)) = length (temperature_log st) + length ts"
  unfolding run_steps_ls_def
  by (induction ts arbitrary: st) (simp_all add: loop_body_ls_log)

lemma loop_body_events_total:
  "total_time_s (battery_halt st t) = int t * time_step_s"
  "events (battery_halt st t) = events st @ [BATTERY_DEPLETED (int t * time_step_s)]"
  "n_steps (battery_halt st t) = Suc t"
  "temperature_log (battery_halt st t) = temperature_log st"
  "battery_remaining_wh (battery_halt st t) = battery_remaining_wh st"
  by (simp_all add: battery_halt_def Let_def)

lemma loop_body_battery_bounds:
  "battery_remaining_wh st - 151.25 / 3600 \<le> battery_remaining_wh (loop_body st t)"
  "battery_remaining_wh (loop_body st t) \<le> battery_remaining_wh st"
  using thermal_phase_battery [of st t] by (simp_all add: loop_body_battery)

lemma arange_length_matches:
  assumes "dt \<noteq> 0" "0 < total_time div dt"
  shows "(arange_length total_time dt = nat (total_time div dt)) = (dt dvd total_time)"
proof -
  have "arange_length total_time dt = nat (- ((- total_time) div dt))"
    by (simp add: arange_length_def ceiling_divide_eq_div)
  also have "\<dots> = (if total_time mod dt = 0 then nat (total_time div dt)
                    else nat (total_time div dt + 1))"
    using assms(1) by (simp add: zdiv_zminus1_eq_if add.commute)
  finally have "arange_length total_time dt
      = (if total_time mod dt = 0 then nat (total_time div dt)
         else nat (total_time div dt + 1))" .
  moreover have "nat (total_time div dt + 1) \<noteq> nat (total_time div dt)"
    using assms(2) by simp
  ultimately show ?thesis
    by (simp add: dvd_eq_mod_eq_0)
qed

lemma run_simulation_ls_cases:
  "run_simulation_ls total_time dt =
     (if dt = 0 then Inl ZeroDivisionError
      else if total_time div dt \<le> 0 then Inl ValueError
      else if dt dvd total_time then
        Inr (events (run_steps_ls dt [0 ..< nat (total_time div dt)]
                       (initial_state_ls total_time dt))
               @ [SUMMARY total_time
                    (battery_remaining_wh
                       (run_steps_ls dt [0 ..< nat (total_time div dt)]
                          (initial_state_ls total_time dt)))],
             temperature_log (run_steps_ls dt [0 ..< nat (total_time div dt)]
                                (initial_state_ls total_time dt)))
      else Inl ValueError)"
proof -
  let ?n = "nat (total_time div dt)"
  let ?S = "run_steps_ls dt [0 ..< ?n] (initial_state_ls total_time dt)"
  have n: "n_steps (initial_state_ls total_time dt) = ?n"
    by (simp add: initial_state_ls_def)
  have len: "length (temperature_log ?S) = ?n"
    by (simp add: run_steps_ls_log initial_state_ls_def)
  have empty: "(temperature_log ?S = []) = (total_time div dt \<le> 0)"
    using len by (metis length_0_conv nat_le_0 nat_eq_iff2 le_less_linear less_irrefl list.size(3)
        zero_less_nat_eq)
  show ?thesis
  proof (cases "dt = 0")
    case True
    then show ?thesis by (simp add: run_simulation_ls_def)
  next
    case dt: False
    show ?thesis
    proof (cases "total_time div dt \<le> 0")
      case True
      then show ?thesis
        using dt empty by (simp add: run_simulation_ls_def Let_def n)
    next
      case False
      then have pos: "0 < total_time div dt" by simp
      have "(arange_length total_time dt = length (temperature_log ?S)) = (dt dvd total_time)"
        using arange_length_matches [OF dt pos] by (simp add: len)
      then show ?thesis
        using dt False empty by (simp add: run_simulation_ls_def Let_def n)
    qed
  qed
qed

text \<open>
  Claim C9, amended. In the 4o1-pro loop, started with an empty temperature log: if the
  battery is at or below zero at the end of step \<open>k\<close> and was above zero at the end of
  every earlier step, the loop ends there. The run is the first \<open>k + 1\<close> steps followed
  by the depletion event; the log has \<open>k + 1\<close> entries, \<open>n_steps\<close> becomes \<open>k + 1\<close>, and
  the summary follows the depletion event and reports a battery of zero. If the battery
  is above zero at the end of every step, all \<open>n_steps\<close> steps run. In both cases the log
  has as many entries as \<open>n_steps\<close> says, which is what the script's plot needs, and no
  operation of the loop can raise.

  \<^verbatim>\<open>run_simulation\<close> of laptop_sim has no battery check. It raises ZeroDivisionError on
  a zero step, and ValueError when no step would run or when the duration is not a
  multiple of the step (the plot); otherwise it returns, after running every index below
  \<open>total_time_s // time_step_s\<close> whatever the battery level, a log with one entry per
  index and a summary that reports the battery as it is.
\<close>

theorem battery_depletion_halts_4o1_pro:
  assumes "temperature_log st = []"
  shows "(k < n_steps st
          \<and> (\<forall>j < k. 0 < battery_remaining_wh (all_steps [0 ..< Suc j] st))
          \<and> battery_remaining_wh (all_steps [0 ..< Suc k] st) \<le> 0
          \<longrightarrow> run_steps [0 ..< n_steps st] st = battery_halt (all_steps [0 ..< Suc k] st) k
              \<and> length (temperature_log (simulate st)) = Suc k
              \<and> n_steps (simulate st) = Suc k
              \<and> events (simulate st)
                  = events (all_steps [0 ..< Suc k] st)
                    @ [BATTERY_DEPLETED (int k * time_step_s), SUMMARY (int k * time_step_s) 0])
       \<and> ((\<forall>j < n_steps st. 0 < battery_remaining_wh (all_steps [0 ..< Suc j] st))
          \<longrightarrow> run_steps [0 ..< n_steps st] st = all_steps [0 ..< n_steps st] st
              \<and> length (temperature_log (simulate st)) = n_steps st
              \<and> n_steps (simulate st) = n_steps st)
       \<and> run_simulation_ls total_time dt =
           (if dt = 0 then Inl ZeroDivisionError
            else if total_time div dt \<le> 0 then Inl ValueError
            else if dt dvd total_time then
              Inr (events (run_steps_ls dt [0 ..< nat (total_time div dt)]
                             (initial_state_ls total_time dt))
                     @ [SUMMARY total_time
                          (battery_remaining_wh
                             (run_steps_ls dt [0 ..< nat (total_time div dt)]
                                (initial_state_ls total_time dt)))],
                   temperature_log (run_steps_ls dt [0 ..< nat (total_time div dt)]
                                      (initial_state_ls total_time dt)))
            else Inl ValueError)
       \<and> length (temperature_log (run_steps_ls dt [0 ..< nat (total_time div dt)]
                                     (initial_state_ls total_time dt)))
           = nat (total_time div dt)"
proof (intro conjI impI)
  assume h: "k < n_steps st
      \<and> (\<forall>j < k. 0 < battery_remaining_wh (all_steps [0 ..< Suc j] st))
      \<and> battery_remaining_wh (all_steps [0 ..< Suc k] st) \<le> 0"
  let ?ts = "[0 ..< n_steps st]"
  let ?A = "all_steps [0 ..< Suc k] st"
  have tk: "take (Suc j) ?ts = [0 ..< Suc j]" if "j \<le> k" for j
    using that h by (simp del: upt_Suc)
  have 1: "k < length ?ts" using h by simp
  have 2: "\<forall>j < k. 0 < battery_remaining_wh (all_steps (take (Suc j) ?ts) st)"
    using h tk by (simp del: upt_Suc)
  have 3: "battery_remaining_wh (all_steps (take (Suc k) ?ts) st) \<le> 0"
    using h tk by (simp del: upt_Suc)
  have "run_steps ?ts st = battery_halt (all_steps (take (Suc k) ?ts) st) (?ts ! k)"
    using 1 2 3 by (rule run_steps_halt)
  then show run: "run_steps ?ts st = battery_halt ?A k"
    using h tk by (simp del: upt_Suc)
  have len: "length (temperature_log ?A) = Suc k"
    using assms by (simp add: all_steps_log)
  have batt: "max 0 (battery_remaining_wh ?A) = 0"
    using h by simp
  show "length (temperature_log (simulate st)) = Suc k"
    by (simp add: simulate_def summarise_def Let_def run loop_body_events_total len
        del: upt_Suc)
  show "n_steps (simulate st) = Suc k"
    by (simp add: simulate_def summarise_def Let_def run loop_body_events_total len
        del: upt_Suc)
  show "events (simulate st)
      = events ?A @ [BATTERY_DEPLETED (int k * time_step_s), SUMMARY (int k * time_step_s) 0]"
    by (simp add: simulate_def summarise_def Let_def run loop_body_events_total len batt
        del: upt_Suc)
next
  assume h: "\<forall>j < n_steps st. 0 < battery_remaining_wh (all_steps [0 ..< Suc j] st)"
  let ?ts = "[0 ..< n_steps st]"
  have "\<forall>j < length ?ts. 0 < battery_remaining_wh (all_steps (take (Suc j) ?ts) st)"
    using h by (simp del: upt_Suc)
  then show run: "run_steps ?ts st = all_steps ?ts st"
    by (rule run_steps_no_halt)
  show "length (temperature_log (simulate st)) = n_steps st"
    using assms by (simp add: simulate_def summarise_def Let_def run all_steps_log all_steps_n_steps)
  show "n_steps (simulate st) = n_steps st"
    using assms by (simp add: simulate_def summarise_def Let_def run all_steps_log all_steps_n_steps)
next
  show "run_simulation_ls total_time dt =
           (if dt = 0 then Inl ZeroDivisionError
            else if total_time div dt \<le> 0 then Inl ValueError
            else if dt dvd total_time then
              Inr (events (run_steps_ls dt [0 ..< nat (total_time div dt)]
                             (initial_state_ls total_time dt))
                     @ [SUMMARY total_time
                          (battery_remaining_wh
                             (run_steps_ls dt [0 ..< nat (total_time div dt)]
                                (initial_state_ls total_time dt)))],
                   temperature_log (run_steps_ls dt [0 ..< nat (total_time div dt)]
                                      (initial_state_ls total_time dt)))
            else Inl ValueError)"
    by (rule run_simulation_ls_cases)
next
  show "length (temperature_log (run_steps_ls dt [0 ..< nat (total_time div dt)]
                                   (initial_state_ls total_time dt)))
           = nat (total_time div dt)"
    by (simp add: run_steps_ls_log initial_state_ls_def)
qed

theorem battery_depletion_halts_4o1_pro_witness:
  "temperature_log (initial_state\<lparr>battery_remaining_wh := 0, n_steps := 3\<rparr>) = []
   \<and> 0 < n_steps (initial_state\<lparr>battery_remaining_wh := 0, n_steps := 3\<rparr>)
   \<and> battery_remaining_wh
        (all_steps [0 ..< Suc 0] (initial_state\<lparr>battery_remaining_wh := 0, n_steps := 3\<rparr>)) \<le> 0
   \<and> length (temperature_log
        (simulate (initial_state\<lparr>battery_remaining_wh := 0, n_steps := 3\<rparr>))) = 1
   \<and> n_steps (simulate (initial_state\<lparr>battery_remaining_wh := 0, n_steps := 3\<rparr>)) = 1
   \<and> events (simulate (initial_state\<lparr>battery_remaining_wh := 0, n_steps := 3\<rparr>))
       = events (all_steps [0 ..< Suc 0]
                   (initial_state\<lparr>battery_remaining_wh := 0, n_steps := 3\<rparr>))
         @ [BATTERY_DEPLETED 0, SUMMARY 0 0]
   \<and> temperature_log (initial_state\<lparr>n_steps := 2\<rparr>) = []
   \<and> 0 < battery_remaining_wh (all_steps [0 ..< Suc 0] (initial_state\<lparr>n_steps := 2\<rparr>))
   \<and> 0 < battery_remaining_wh (all_steps [0 ..< Suc 1] (initial_state\<lparr>n_steps := 2\<rparr>))
   \<and> length (temperature_log (simulate (initial_state\<lparr>n_steps := 2\<rparr>))) = 2
   \<and> n_steps (simulate (initial_state\<lparr>n_steps := 2\<rparr>)) = 2
   \<and> run_simulation_ls 15 5
       = Inr (events (run_steps_ls 5 [0 ..< 3] (initial_state_ls 15 5))
                @ [SUMMARY 15 (battery_remaining_wh
                                 (run_steps_ls 5 [0 ..< 3] (initial_state_ls 15 5)))],
              temperature_log (run_steps_ls 5 [0 ..< 3] (initial_state_ls 15 5)))
   \<and> length (temperature_log (run_steps_ls 5 [0 ..< 3] (initial_state_ls 15 5))) = 3
   \<and> run_simulation_ls 7 5 = Inl ValueError
   \<and> run_simulation_ls 3 5 = Inl ValueError
   \<and> run_simulation_ls 15 0 = Inl ZeroDivisionError"
proof -
  define H where "H = initial_state\<lparr>battery_remaining_wh := 0, n_steps := 3\<rparr>"
  define F where "F = initial_state\<lparr>n_steps := 2\<rparr>"
  have H: "temperature_log H = []" "n_steps H = 3" "battery_remaining_wh H = 0"
    by (simp_all add: H_def initial_state_def)
  have F: "temperature_log F = []" "n_steps F = 2" "battery_remaining_wh F = 8500000000"
    by (simp_all add: F_def initial_state_def battery_capacity_wh_def)
  have one: "all_steps [0 ..< Suc 0] s = loop_body s 0" for s
    by (simp add: all_steps_def)
  have two: "all_steps [0 ..< Suc 1] s = loop_body (loop_body s 0) 1" for s
    by (simp add: all_steps_def)
  have hb: "battery_remaining_wh (all_steps [0 ..< Suc 0] H) \<le> 0"
    using loop_body_battery_bounds(2) [of H 0] by (simp only: one H)
  have f1: "8500000000 - 151.25 / 3600 \<le> battery_remaining_wh (loop_body F 0)"
    using loop_body_battery_bounds(1) [of F 0] by (simp only: F)
  have f2: "8500000000 - 151.25 / 3600 - 151.25 / 3600
      \<le> battery_remaining_wh (loop_body (loop_body F 0) 1)"
    using loop_body_battery_bounds(1) [of "loop_body F 0" 1] f1 by linarith
  have fb: "0 < battery_remaining_wh (all_steps [0 ..< Suc 0] F)"
      "0 < battery_remaining_wh (all_steps [0 ..< Suc 1] F)"
    using f1 f2 by (simp_all only: one two) simp_all
  have fall: "\<forall>j < n_steps F. 0 < battery_remaining_wh (all_steps [0 ..< Suc j] F)"
  proof (intro allI impI)
    fix j assume "j < n_steps F"
    then have "j = 0 \<or> j = 1" using F by auto
    then show "0 < battery_remaining_wh (all_steps [0 ..< Suc j] F)"
      using fb by auto
  qed
  have hh: "0 < n_steps H
      \<and> (\<forall>j < 0. 0 < battery_remaining_wh (all_steps [0 ..< Suc j] H))
      \<and> battery_remaining_wh (all_steps [0 ..< Suc 0] H) \<le> 0"
    using hb H by simp
  note th = battery_depletion_halts_4o1_pro [OF H(1), where k = 0 and total_time = 15 and dt = 5]
  note tf = battery_depletion_halts_4o1_pro [OF F(1), where k = 0 and total_time = 7 and dt = 5]
  note tg = battery_depletion_halts_4o1_pro [OF F(1), where k = 0 and total_time = 3 and dt = 5]
  note tz = battery_depletion_halts_4o1_pro [OF F(1), where k = 0 and total_time = 15 and dt = 0]
  have rh: "length (temperature_log (simulate H)) = 1 \<and> n_steps (simulate H) = 1
      \<and> events (simulate H)
          = events (all_steps [0 ..< Suc 0] H) @ [BATTERY_DEPLETED 0, SUMMARY 0 0]"
    using th hh by simp
  have rf: "length (temperature_log (simulate F)) = 2 \<and> n_steps (simulate F) = 2"
    using tf fall F by simp
  have rl: "run_simulation_ls 15 5
       = Inr (events (run_steps_ls 5 [0 ..< 3] (initial_state_ls 15 5))
                @ [SUMMARY 15 (battery_remaining_wh
                                 (run_steps_ls 5 [0 ..< 3] (initial_state_ls 15 5)))],
              temperature_log (run_steps_ls 5 [0 ..< 3] (initial_state_ls 15 5)))"
      "length (temperature_log (run_steps_ls 5 [0 ..< 3] (initial_state_ls 15 5))) = 3"
    using th by simp_all
  have rv: "run_simulation_ls 7 5 = Inl ValueError" "run_simulation_ls 3 5 = Inl ValueError"
      "run_simulation_ls 15 0 = Inl ZeroDivisionError"
    using tf tg tz by simp_all
  show ?thesis
    using H F hb fb rh rf rl rv unfolding H_def F_def by simp
qed

lemma peltier_stage_ls_off:
  assumes "temperature_c st < 65" "\<not> (0 < since \<and> since < 60)"
  shows "fst (peltier_stage_ls dt st since) = 0"
    "battery_remaining_wh (snd (peltier_stage_ls dt st since)) = battery_remaining_wh st"
    "hot_side_temp_c (snd (peltier_stage_ls dt st since))
       = max (temperature_c st) (hot_side_temp_c st - 0.5)"
    "peltier_runtime_s (snd (peltier_stage_ls dt st since)) = max 0 (0 - dt)"
  using assms by (auto simp add: peltier_stage_ls_def peltier_decision_ls_def Let_def)

lemma peltier_stage_ls_on:
  assumes "temperature_c st > 70" "battery_remaining_wh st > 5"
    "peltier_runtime_s st < PELTIER_MAX_RUNTIME" "hot_side_temp_c st < 90"
  shows "battery_remaining_wh (snd (peltier_stage_ls dt st since))
         = battery_remaining_wh st - (PELTIER_POWER_DRAW * real_of_int dt) / 3600"
  using assms by (simp add: peltier_stage_ls_def peltier_decision_ls_def Let_def)

lemma fan_stage_ls_battery:
  assumes "0 \<le> dt"
  shows "battery_remaining_wh (snd (fan_stage_ls dt st a b c)) \<le> battery_remaining_wh st"
proof -
  define duty where "duty = fan_duty_cycle (snd (fan_stage_ls dt st a b c))"
  have eq: "battery_remaining_wh (snd (fan_stage_ls dt st a b c))
      = (if duty > 0
         then battery_remaining_wh st - (FAN_POWER_DRAW * (duty / 100) * real_of_int dt) / 3600
         else battery_remaining_wh st)"
    unfolding duty_def
    by (simp add: fan_stage_ls_def Let_def split_beta
        if_distrib [of battery_remaining_wh] if_distrib [of fan_duty_cycle]
        split del: if_split cong: if_cong)
  show ?thesis
    unfolding eq using assms by (simp add: FAN_POWER_DRAW_def)
qed

lemma fan_stage_ls_idle:
  assumes "temperature_c st < 50" "\<not> a" "fan_duty_cycle st = 0"
  shows "fst (fan_stage_ls dt st a b c) = 1"
    "battery_remaining_wh (snd (fan_stage_ls dt st a b c)) = battery_remaining_wh st"
  using assms by (simp_all add: fan_stage_ls_def Let_def calculate_fan_multiplier_ls_def)

lemma fan_stage_ls_runtime:
  "peltier_runtime_s (snd (fan_stage_ls dt st a b c)) = peltier_runtime_s st"
  by (simp add: fan_stage_ls_def Let_def split_beta if_distrib [of peltier_runtime_s]
      split del: if_split cong: if_cong)

lemma loop_body_ls_battery:
  "battery_remaining_wh (loop_body_ls dt st t)
     = battery_remaining_wh (phase_state (thermal_phase_ls dt st t))"
  by (simp add: loop_body_ls_unfold net_temperature_update_ls_frame apply_hiss_usage_ls_def
      after_swap_ls_def canister_swap_ls_frame after_purge_ls_def emergency_purge_ls_frame)

lemma loop_body_ls_runtime:
  "peltier_runtime_s (loop_body_ls dt st t)
     = peltier_runtime_s (phase_state (thermal_phase_ls dt st t))"
  by (simp add: loop_body_ls_unfold net_temperature_update_ls_def apply_hiss_usage_ls_def
      after_swap_ls_def canister_swap_ls_def after_purge_ls_def emergency_purge_ls_def Let_def)

lemma loop_body_ls_temperature:
  "temperature_c (loop_body_ls dt st t)
     = temperature_c (after_purge_ls dt st t)
       + (phase_cpu_power (thermal_phase_ls dt st t)
          - phase_total_cooling (thermal_phase_ls dt st t))
         * real_of_int dt / THERMAL_MASS_J_PER_C"
  by (simp add: loop_body_ls_unfold net_temperature_update_ls_frame apply_hiss_usage_ls_def
      after_swap_ls_def canister_swap_ls_frame)

lemma thermal_phase_ls_idle:
  assumes "temperature_c st < 50" "fan_duty_cycle st = 0"
      and "180 < int t * dt - last_purge_time st"
  shows "battery_remaining_wh (phase_state (thermal_phase_ls dt st t)) = battery_remaining_wh st"
    "peltier_runtime_s (phase_state (thermal_phase_ls dt st t)) = max 0 (0 - dt)"
    "hot_side_temp_c (phase_state (thermal_phase_ls dt st t))
       = max (temperature_c st) (hot_side_temp_c st - 0.5)"
    "phase_total_cooling (thermal_phase_ls dt st t)
       = PASSIVE_DISSIPATION_WATTS + hiss_energy_now_ls st (int t * dt) / real_of_int dt"
    "phase_cpu_power (thermal_phase_ls dt st t) = get_cpu_workload_ls (real_of_int (int t * dt))"
  using assms
  by (simp_all add: thermal_phase_ls_def phase_state_def phase_total_cooling_def
      phase_cpu_power_def Let_def split_beta CONDUCTION_DURATION_def
      peltier_stage_ls_off peltier_stage_ls_frame fan_stage_ls_idle fan_stage_ls_frame
      fan_stage_ls_runtime split del: if_split)

lemma loop_body_ls_drains_battery:
  assumes "temperature_c st > 70" "battery_remaining_wh st > 5"
    "peltier_runtime_s st < PELTIER_MAX_RUNTIME" "hot_side_temp_c st < 90" "0 \<le> dt"
  shows "battery_remaining_wh (loop_body_ls dt st t)
         \<le> battery_remaining_wh st - (PELTIER_POWER_DRAW * real_of_int dt) / 3600"
proof -
  define s1 where "s1 = st\<lparr>post_purge_timer :=
      (if 0 \<le> int t * dt - last_purge_time st
          \<and> int t * dt - last_purge_time st \<le> CONDUCTION_DURATION
       then CONDUCTION_DURATION - (int t * dt - last_purge_time st) else 0),
    contribution := (contribution st)
      \<lparr>cc_passive := cc_passive (contribution st)
                      + PASSIVE_DISSIPATION_WATTS * real_of_int dt,
       cc_canister_conduction := cc_canister_conduction (contribution st)
         + (if 0 \<le> int t * dt - last_purge_time st
               \<and> int t * dt - last_purge_time st \<le> CONDUCTION_DURATION
            then CONDUCTION_WATTS else 0) * real_of_int dt,
       cc_co2_hiss := cc_co2_hiss (contribution st) + hiss_energy_now_ls st (int t * dt)\<rparr>\<rparr>"
  have "battery_remaining_wh (phase_state (thermal_phase_ls dt st t))
      = battery_remaining_wh
          (snd (fan_stage_ls dt (snd (peltier_stage_ls dt s1 (int t * dt - last_purge_time st)))
             (0 \<le> int t * dt - last_purge_time st
              \<and> int t * dt - last_purge_time st \<le> CONDUCTION_DURATION)
             (int t * dt)
             (if 0 \<le> int t * dt - last_purge_time st
                 \<and> int t * dt - last_purge_time st \<le> CONDUCTION_DURATION
              then CONDUCTION_DURATION - (int t * dt - last_purge_time st) else 0)))"
    by (simp add: thermal_phase_ls_def phase_state_def Let_def split_beta s1_def
        split del: if_split)
  then have "battery_remaining_wh (phase_state (thermal_phase_ls dt st t))
      \<le> battery_remaining_wh (snd (peltier_stage_ls dt s1 (int t * dt - last_purge_time st)))"
    using fan_stage_ls_battery [OF assms(5)] by simp
  also have "\<dots> = battery_remaining_wh s1 - (PELTIER_POWER_DRAW * real_of_int dt) / 3600"
    by (rule peltier_stage_ls_on) (use assms in \<open>simp_all add: s1_def\<close>)
  finally show ?thesis
    by (simp add: loop_body_ls_battery s1_def)
qed

text \<open>
  Claim C9 (as stated it fails). \<^verbatim>\<open>run_simulation(21600, 7200)\<close> of laptop_sim runs three
  steps of two hours. The first leaves the device at about 366 degrees with the battery
  at 60 Wh; in the second the Peltier switches on and draws 30 W for 7200 s, so the step
  ends with the battery at or below zero. The third step runs all the same: the log that
  is returned has three entries.
\<close>

theorem laptop_sim_runs_on_after_depletion:
  "n_steps (initial_state_ls 21600 7200) = 3
   \<and> battery_remaining_wh (run_steps_ls 7200 [0 ..< 2] (initial_state_ls 21600 7200)) \<le> 0
   \<and> length (temperature_log (run_steps_ls 7200 [0 ..< 3] (initial_state_ls 21600 7200))) = 3
   \<and> run_simulation_ls 21600 7200
       = Inr (events (run_steps_ls 7200 [0 ..< 3] (initial_state_ls 21600 7200))
                @ [SUMMARY 21600
                     (battery_remaining_wh
                        (run_steps_ls 7200 [0 ..< 3] (initial_state_ls 21600 7200)))],
              temperature_log (run_steps_ls 7200 [0 ..< 3] (initial_state_ls 21600 7200)))"
proof -
  define I where "I = initial_state_ls 21600 7200"
  define S1 where "S1 = loop_body_ls 7200 I 0"
  have I: "temperature_c I = 25" "fan_duty_cycle I = 0" "last_purge_time I = - 9999"
      "battery_remaining_wh I = 60" "hot_side_temp_c I = 25" "n_steps I = 3"
      "temperature_log I = []" "canisters I = [2900, 2900]" "current_canister I = 0"
    by (simp_all add: I_def initial_state_ls_def ls_consts)
  have idle: "temperature_c I < 50" "fan_duty_cycle I = 0"
      "180 < int 0 * 7200 - last_purge_time I"
    by (simp_all add: I)
  have hiss: "hiss_energy_now_ls I 0 = 0.9"
    by (simp add: hiss_energy_now_ls_def microburst_schedule_ls_def I)
  have cpu: "get_cpu_workload_ls 0 = 15.725"
    by (simp add: get_cpu_workload_ls_def CPU_POWER_WATTS_def)
  have ap: "temperature_c (after_purge_ls 7200 I 0) = 25"
    using after_purge_ls_cool [of I 7200 0]
    by (simp add: I EMERGENCY_TEMP_C_def thermal_phase_ls_frame)
  have t1: "temperature_c S1 = 25 + (15.725 - (1.5 + 0.9 / 7200)) * 7200 / 300"
    unfolding S1_def
    by (simp add: loop_body_ls_temperature ap thermal_phase_ls_idle [OF idle] hiss cpu
        PASSIVE_DISSIPATION_WATTS_def THERMAL_MASS_J_PER_C_def)
  have b1: "battery_remaining_wh S1 = 60"
    unfolding S1_def by (simp add: loop_body_ls_battery thermal_phase_ls_idle [OF idle] I)
  have r1: "peltier_runtime_s S1 = 0"
    unfolding S1_def by (simp add: loop_body_ls_runtime thermal_phase_ls_idle [OF idle])
  have h1: "hot_side_temp_c S1 = 25"
    unfolding S1_def by (simp add: loop_body_ls_hot_side thermal_phase_ls_idle [OF idle] I)
  have hot: "temperature_c S1 > 70" "battery_remaining_wh S1 > 5"
      "peltier_runtime_s S1 < PELTIER_MAX_RUNTIME" "hot_side_temp_c S1 < 90" "(0::int) \<le> 7200"
    by (simp_all add: t1 b1 r1 h1 PELTIER_MAX_RUNTIME_def)
  have b2: "battery_remaining_wh (loop_body_ls 7200 S1 1) \<le> 0"
    using loop_body_ls_drains_battery [OF hot, of 1] by (simp add: b1 PELTIER_POWER_DRAW_def)
  have two: "run_steps_ls 7200 [0 ..< 2] I = loop_body_ls 7200 S1 1"
    by (simp add: run_steps_ls_def S1_def numeral_2_eq_2)
  have len: "length (temperature_log (run_steps_ls 7200 [0 ..< 3] I)) = 3"
    by (simp add: run_steps_ls_log I)
  then have ne: "temperature_log (run_steps_ls 7200 [0 ..< 3] I) \<noteq> []"
    by auto
  have run: "run_simulation_ls 21600 7200
      = Inr (events (run_steps_ls 7200 [0 ..< 3] I)
               @ [SUMMARY 21600 (battery_remaining_wh (run_steps_ls 7200 [0 ..< 3] I))],
             temperature_log (run_steps_ls 7200 [0 ..< 3] I))"
    by (simp add: run_simulation_ls_cases I_def)
  show ?thesis
    using I(6) b2 two len run unfolding I_def by simp
qed

end
